theory Spec2Isabelle
  imports Complex_Main "HOL-Library.Sublist" "HOL-Library.Log_Nat"
begin

section \<open>JavaScript values shared by the proxy route and the widgets\<close>

text \<open>
  Values a \<^verbatim>\<open>try\<close> block can catch. The handlers and widgets never inspect the caught
  value, so the kind of the exception is all that is kept; \<open>NetworkError\<close> is the rejection
  of a \<^verbatim>\<open>fetch\<close> that got no response.
\<close>

datatype exn = Error | TypeError | RangeError | SyntaxError | NetworkError

text \<open>JSON values: the bodies the proxy receives, builds and relays.\<close>

datatype json =
    JNull
  | JBool bool
  | JNum rat
  | JStr string
  | JArr "json list"
  | JObj "(string \<times> json) list"

text \<open>\<^verbatim>\<open>Array.prototype.join\<close> on an array of strings.\<close>

fun join :: "string \<Rightarrow> string list \<Rightarrow> string" where
  "join sep [] = []"
| "join sep [x] = x"
| "join sep (x # y # ys) = x @ sep @ join sep (y # ys)"

text \<open>\<^verbatim>\<open>String.prototype.includes\<close>: the argument occurs as a contiguous run.\<close>

fun str_includes :: "string \<Rightarrow> string \<Rightarrow> bool" where
  "str_includes [] t = (t = [])"
| "str_includes (c # cs) t = (prefix t (c # cs) \<or> str_includes cs t)"


section \<open>The proxy route \<^verbatim>\<open>src/app/api/strike/[...path]/route.ts\<close>\<close>

definition STRIKE_API_BASE :: string where
  "STRIKE_API_BASE = ''https://api.strike.me/v1''"

text \<open>\<^verbatim>\<open>process.env\<close>: the one variable the route reads; \<open>None\<close> is \<^verbatim>\<open>undefined\<close>.\<close>

record process_env =
  STRIKE_API_KEY :: "string option"

text \<open>
  The inbound request, as far as the handlers look at it:
  \<open>searchParams\<close> is \<^verbatim>\<open>new URL(request.url).searchParams.toString()\<close> and
  \<open>request_json\<close> is the outcome of \<^verbatim>\<open>await request.json()\<close>.
\<close>

record next_request =
  searchParams :: string
  request_json :: "exn + json"

text \<open>
  The arguments of one outbound \<^verbatim>\<open>fetch(url, init)\<close>. \<open>body\<close> is the value handed to
  \<^verbatim>\<open>JSON.stringify\<close>, \<open>None\<close> when \<^verbatim>\<open>init\<close> has no body.
\<close>

record fetch_init =
  url :: string
  fetch_method :: string
  headers :: "(string \<times> string) list"
  body :: "json option"

text \<open>
  The \<^verbatim>\<open>Response\<close> that \<^verbatim>\<open>fetch\<close> resolves to: \<open>content_type\<close> is
  \<^verbatim>\<open>response.headers.get('content-type')\<close>, \<open>response_text\<close> and \<open>response_json\<close> are the outcomes of
  \<^verbatim>\<open>await response.text()\<close> and \<^verbatim>\<open>await response.json()\<close>.
\<close>

record fetch_response =
  status :: nat
  content_type :: "string option"
  response_text :: "exn + string"
  response_json :: "exn + json"

text \<open>\<^verbatim>\<open>response.ok\<close>: the status is in the range 200 to 299.\<close>

definition ok :: "fetch_response \<Rightarrow> bool" where
  "ok response = (200 \<le> status response \<and> status response \<le> 299)"

text \<open>The network and the upstream: what an outbound call resolves to, or the rejection.\<close>

type_synonym fetch_fn = "fetch_init \<Rightarrow> exn + fetch_response"

text \<open>The response handed back to the caller of the proxy.\<close>

record next_response =
  res_status :: nat
  res_body :: json

text \<open>
  \<^verbatim>\<open>NextResponse.json(body, { status })\<close>. The \<^verbatim>\<open>Response\<close> constructor behind it
  throws a \<^verbatim>\<open>RangeError\<close> for a status outside 200 to 599 and a \<^verbatim>\<open>TypeError\<close> for a body
  given with a null-body status (204, 205, 304). A call without \<^verbatim>\<open>init\<close> has status 200.
\<close>

definition NextResponse_json :: "json \<Rightarrow> nat \<Rightarrow> exn + next_response" where
  "NextResponse_json data st =
     (if st < 200 \<or> 599 < st then Inl RangeError
      else if st = 204 \<or> st = 205 \<or> st = 304 then Inl TypeError
      else Inr \<lparr>res_status = st, res_body = data\<rparr>)"

text \<open>
  A handler's run: what it returns (\<open>Inl\<close> is an exception that escapes it) and the
  outbound calls it made, in order.
\<close>

type_synonym run = "(exn + next_response) \<times> fetch_init list"

text \<open>
  The block \<^verbatim>\<open>if (!response.ok) { ... }\<close> (lines 33-43, 85-95, 137-147, 187-197: the
  same text in the four handlers).
\<close>

definition request_failed :: "fetch_response \<Rightarrow> exn + next_response" where
  "request_failed response =
     (case response_text response of
        Inl e \<Rightarrow> Inl e
      | Inr errorData \<Rightarrow>
          NextResponse_json
            (JObj [(''error'', JStr ''Strike API request failed''),
                   (''status'', JNum (of_nat (status response))),
                   (''message'', JStr errorData)])
            (status response))"

text \<open>
  The lines after that block in \<^verbatim>\<open>GET\<close>, \<^verbatim>\<open>POST\<close> and \<^verbatim>\<open>PATCH\<close> (45-46, 97-98, 149-150).
\<close>

definition relay_json :: "fetch_response \<Rightarrow> exn + next_response" where
  "relay_json response =
     (case response_json response of
        Inl e \<Rightarrow> Inl e
      | Inr data \<Rightarrow> NextResponse_json data 200)"

text \<open>The \<^verbatim>\<open>try\<close> block of \<^verbatim>\<open>GET\<close> (lines 10-46).\<close>

definition GET_try ::
  "process_env \<Rightarrow> next_request \<Rightarrow> exn + string list \<Rightarrow> fetch_fn \<Rightarrow> run" where
  "GET_try env request params fetch =
     (case STRIKE_API_KEY env of
        None \<Rightarrow>
          (NextResponse_json (JObj [(''error'', JStr ''Strike API key not configured'')]) 500, [])
      | Some apiKey \<Rightarrow>
          if apiKey = [] then
            (NextResponse_json (JObj [(''error'', JStr ''Strike API key not configured'')]) 500, [])
          else
            (case params of
               Inl e \<Rightarrow> (Inl e, [])
             | Inr resolvedParams \<Rightarrow>
                 let path = join ''/'' resolvedParams;
                     strikeUrl = STRIKE_API_BASE @ ''/'' @ path @
                       (if searchParams request \<noteq> [] then ''?'' @ searchParams request else []);
                     init = \<lparr>url = strikeUrl, fetch_method = ''GET'',
                             headers = [(''Authorization'', ''Bearer '' @ apiKey),
                                        (''Content-Type'', ''application/json'')],
                             body = None\<rparr>
                 in (case fetch init of
                       Inl e \<Rightarrow> (Inl e, [init])
                     | Inr response \<Rightarrow>
                         if \<not> ok response then (request_failed response, [init])
                         else (relay_json response, [init]))))"

text \<open>The \<^verbatim>\<open>try\<close> block of \<^verbatim>\<open>POST\<close> (lines 62-98).\<close>

definition POST_try ::
  "process_env \<Rightarrow> next_request \<Rightarrow> exn + string list \<Rightarrow> fetch_fn \<Rightarrow> run" where
  "POST_try env request params fetch =
     (case STRIKE_API_KEY env of
        None \<Rightarrow>
          (NextResponse_json (JObj [(''error'', JStr ''Strike API key not configured'')]) 500, [])
      | Some apiKey \<Rightarrow>
          if apiKey = [] then
            (NextResponse_json (JObj [(''error'', JStr ''Strike API key not configured'')]) 500, [])
          else
            (case params of
               Inl e \<Rightarrow> (Inl e, [])
             | Inr resolvedParams \<Rightarrow>
                 let path = join ''/'' resolvedParams in
                 (case request_json request of
                    Inl e \<Rightarrow> (Inl e, [])
                  | Inr b \<Rightarrow>
                      let strikeUrl = STRIKE_API_BASE @ ''/'' @ path;
                          init = \<lparr>url = strikeUrl, fetch_method = ''POST'',
                                  headers = [(''Authorization'', ''Bearer '' @ apiKey),
                                             (''Content-Type'', ''application/json'')],
                                  body = Some b\<rparr>
                      in (case fetch init of
                            Inl e \<Rightarrow> (Inl e, [init])
                          | Inr response \<Rightarrow>
                              if \<not> ok response then (request_failed response, [init])
                              else (relay_json response, [init])))))"

text \<open>The \<^verbatim>\<open>try\<close> block of \<^verbatim>\<open>PATCH\<close> (lines 114-150).\<close>

definition PATCH_try ::
  "process_env \<Rightarrow> next_request \<Rightarrow> exn + string list \<Rightarrow> fetch_fn \<Rightarrow> run" where
  "PATCH_try env request params fetch =
     (case STRIKE_API_KEY env of
        None \<Rightarrow>
          (NextResponse_json (JObj [(''error'', JStr ''Strike API key not configured'')]) 500, [])
      | Some apiKey \<Rightarrow>
          if apiKey = [] then
            (NextResponse_json (JObj [(''error'', JStr ''Strike API key not configured'')]) 500, [])
          else
            (case params of
               Inl e \<Rightarrow> (Inl e, [])
             | Inr resolvedParams \<Rightarrow>
                 let path = join ''/'' resolvedParams in
                 (case request_json request of
                    Inl e \<Rightarrow> (Inl e, [])
                  | Inr b \<Rightarrow>
                      let strikeUrl = STRIKE_API_BASE @ ''/'' @ path;
                          init = \<lparr>url = strikeUrl, fetch_method = ''PATCH'',
                                  headers = [(''Authorization'', ''Bearer '' @ apiKey),
                                             (''Content-Type'', ''application/json'')],
                                  body = Some b\<rparr>
                      in (case fetch init of
                            Inl e \<Rightarrow> (Inl e, [init])
                          | Inr response \<Rightarrow>
                              if \<not> ok response then (request_failed response, [init])
                              else (relay_json response, [init])))))"

text \<open>The \<^verbatim>\<open>try\<close> block of \<^verbatim>\<open>DELETE\<close> (lines 166-206).\<close>

definition DELETE_try ::
  "process_env \<Rightarrow> next_request \<Rightarrow> exn + string list \<Rightarrow> fetch_fn \<Rightarrow> run" where
  "DELETE_try env request params fetch =
     (case STRIKE_API_KEY env of
        None \<Rightarrow>
          (NextResponse_json (JObj [(''error'', JStr ''Strike API key not configured'')]) 500, [])
      | Some apiKey \<Rightarrow>
          if apiKey = [] then
            (NextResponse_json (JObj [(''error'', JStr ''Strike API key not configured'')]) 500, [])
          else
            (case params of
               Inl e \<Rightarrow> (Inl e, [])
             | Inr resolvedParams \<Rightarrow>
                 let path = join ''/'' resolvedParams;
                     strikeUrl = STRIKE_API_BASE @ ''/'' @ path;
                     init = \<lparr>url = strikeUrl, fetch_method = ''DELETE'',
                             headers = [(''Authorization'', ''Bearer '' @ apiKey),
                                        (''Content-Type'', ''application/json'')],
                             body = None\<rparr>
                 in (case fetch init of
                       Inl e \<Rightarrow> (Inl e, [init])
                     | Inr response \<Rightarrow>
                         if \<not> ok response then (request_failed response, [init])
                         else
                           (case content_type response of
                              None \<Rightarrow>
                                (NextResponse_json (JObj [(''success'', JBool True)]) 200, [init])
                            | Some contentType \<Rightarrow>
                                if contentType \<noteq> [] \<and> str_includes contentType ''application/json''
                                then (relay_json response, [init])
                                else
                                  (NextResponse_json (JObj [(''success'', JBool True)]) 200,
                                   [init])))))"

text \<open>
  The \<^verbatim>\<open>catch\<close> block, the same in the four handlers (lines 48-54, 100-106, 152-158,
  208-214): whatever the \<^verbatim>\<open>try\<close> block threw, answer with a fixed body and status 500.
\<close>

definition catch_error :: "run \<Rightarrow> run" where
  "catch_error r =
     (case r of
        (Inl error, calls) \<Rightarrow>
          (NextResponse_json (JObj [(''error'', JStr ''Failed to communicate with Strike API'')]) 500,
           calls)
      | (Inr response, calls) \<Rightarrow> (Inr response, calls))"

definition GET :: "process_env \<Rightarrow> next_request \<Rightarrow> exn + string list \<Rightarrow> fetch_fn \<Rightarrow> run" where
  "GET env request params fetch = catch_error (GET_try env request params fetch)"

definition POST :: "process_env \<Rightarrow> next_request \<Rightarrow> exn + string list \<Rightarrow> fetch_fn \<Rightarrow> run" where
  "POST env request params fetch = catch_error (POST_try env request params fetch)"

definition PATCH :: "process_env \<Rightarrow> next_request \<Rightarrow> exn + string list \<Rightarrow> fetch_fn \<Rightarrow> run" where
  "PATCH env request params fetch = catch_error (PATCH_try env request params fetch)"

definition DELETE :: "process_env \<Rightarrow> next_request \<Rightarrow> exn + string list \<Rightarrow> fetch_fn \<Rightarrow> run" where
  "DELETE env request params fetch = catch_error (DELETE_try env request params fetch)"

text \<open>The framework calls the exported function named after the request's method.\<close>

datatype http_method = HTTP_GET | HTTP_POST | HTTP_PATCH | HTTP_DELETE

fun route ::
  "http_method \<Rightarrow> process_env \<Rightarrow> next_request \<Rightarrow> exn + string list \<Rightarrow> fetch_fn \<Rightarrow> run" where
  "route HTTP_GET = GET"
| "route HTTP_POST = POST"
| "route HTTP_PATCH = PATCH"
| "route HTTP_DELETE = DELETE"

fun route_try ::
  "http_method \<Rightarrow> process_env \<Rightarrow> next_request \<Rightarrow> exn + string list \<Rightarrow> fetch_fn \<Rightarrow> run" where
  "route_try HTTP_GET = GET_try"
| "route_try HTTP_POST = POST_try"
| "route_try HTTP_PATCH = PATCH_try"
| "route_try HTTP_DELETE = DELETE_try"


text \<open>
  The URL the specification describes for every method: the fixed base, the inbound path
  suffix and the inbound query string, concatenated (with the separators \<^verbatim>\<open>GET\<close> puts
  between them).
\<close>

definition spec_upstream_url :: "string list \<Rightarrow> string \<Rightarrow> string" where
  "spec_upstream_url segments query =
     STRIKE_API_BASE @ ''/'' @ join ''/'' segments @ (if query \<noteq> [] then ''?'' @ query else [])"

text \<open>An outbound call with its \<^verbatim>\<open>Authorization\<close> header taken out.\<close>

definition without_authorization :: "fetch_init \<Rightarrow> fetch_init" where
  "without_authorization init =
     init\<lparr>headers := filter (\<lambda>h. fst h \<noteq> ''Authorization'') (headers init)\<rparr>"

subsection \<open>Concrete requests and upstream behaviours\<close>

definition env_unset :: process_env where
  "env_unset = \<lparr>STRIKE_API_KEY = None\<rparr>"

definition env_key :: "string \<Rightarrow> process_env" where
  "env_key k = \<lparr>STRIKE_API_KEY = Some k\<rparr>"

text \<open>An inbound request to \<^verbatim>\<open>/api/strike/foo?x=1\<close> with the JSON body \<^verbatim>\<open>{"amount": 5}\<close>.\<close>

definition foo_request :: next_request where
  "foo_request = \<lparr>searchParams = ''x=1'', request_json = Inr (JObj [(''amount'', JNum 5)])\<rparr>"

definition foo_params :: "exn + string list" where
  "foo_params = Inr [''foo'']"


text \<open>An upstream that answers 200 with a JSON body.\<close>

definition fetch_200_json :: fetch_fn where
  "fetch_200_json init =
     Inr \<lparr>status = 200, content_type = Some ''application/json; charset=utf-8'',
          response_text = Inr ''{\"id\":7}'', response_json = Inr (JObj [(''id'', JNum 7)])\<rparr>"

text \<open>An upstream that answers 200 with a plain-text body.\<close>

definition fetch_200_text :: fetch_fn where
  "fetch_200_text init =
     Inr \<lparr>status = 200, content_type = Some ''text/plain'',
          response_text = Inr ''deleted'', response_json = Inl SyntaxError\<rparr>"

text \<open>An upstream that answers 404 with a plain-text body.\<close>

definition fetch_404_text :: fetch_fn where
  "fetch_404_text init =
     Inr \<lparr>status = 404, content_type = Some ''text/plain'',
          response_text = Inr ''Not Found'', response_json = Inl SyntaxError\<rparr>"

section \<open>JavaScript numbers\<close>

text \<open>
  A \<^verbatim>\<open>number\<close> is an IEEE 754 double: a finite value is held as the rational it
  denotes, with the negative zero apart, beside the two infinities and \<^verbatim>\<open>NaN\<close>. Every
  arithmetic operation computes the exact result and rounds it to the nearest double
  (53 significant bits, ties to the even significand, subnormals below \<open>2^-1022\<close>),
  overflowing to an infinity and underflowing to a zero of the result's sign. The
  operations are written for every rational; on the values of doubles they are the
  operations of the language.
\<close>

datatype number = Num rat | NegZero | Infinity | NegInfinity | NaN

text \<open>The \<open>e\<close> with \<open>2^e \<le> a < 2^(e+1)\<close>, for a positive \<open>a\<close>.\<close>

definition binary_exponent :: "rat \<Rightarrow> int" where
  "binary_exponent a =
     (let (p, q) = quotient_of a;
          d = bitlen p - bitlen q
      in if 2 powi d \<le> a then d else d - 1)"

text \<open>The nearest integer, the even one of the two on a tie.\<close>

definition round_half_even :: "rat \<Rightarrow> int" where
  "round_half_even x =
     (let f = \<lfloor>x\<rfloor>;
          d = x - of_int f
      in if d < 1 / 2 then f
         else if 1 / 2 < d then f + 1
         else if even f then f else f + 1)"

text \<open>
  The double nearest to a positive magnitude \<open>a\<close>, with the sign given: \<open>a\<close> is
  rounded to a multiple of the unit in the last place of its binade.
\<close>

definition round_magnitude :: "bool \<Rightarrow> rat \<Rightarrow> number" where
  "round_magnitude negative a =
     (let e = max (binary_exponent a) (- 1022);
          ulp = 2 powi (e - 52);
          n = round_half_even (a / ulp);
          r = of_int n * ulp
      in if 2 powi 1024 \<le> r then (if negative then NegInfinity else Infinity)
         else if n = 0 then (if negative then NegZero else Num 0)
         else Num (if negative then - r else r))"

definition round_double :: "rat \<Rightarrow> number" where
  "round_double q = (if q = 0 then Num 0 else round_magnitude (q < 0) \<bar>q\<bar>)"

text \<open>
  The value of a finite number, its sign bit, and the kinds of operand the operations
  tell apart.
\<close>

fun finite_value :: "number \<Rightarrow> rat" where
  "finite_value (Num x) = x"
| "finite_value a = 0"

fun is_negative :: "number \<Rightarrow> bool" where
  "is_negative (Num x) = (x < 0)"
| "is_negative NegZero = True"
| "is_negative NegInfinity = True"
| "is_negative a = False"

fun is_infinite :: "number \<Rightarrow> bool" where
  "is_infinite Infinity = True"
| "is_infinite NegInfinity = True"
| "is_infinite a = False"

fun is_finite :: "number \<Rightarrow> bool" where
  "is_finite (Num x) = True"
| "is_finite NegZero = True"
| "is_finite a = False"

fun is_zero :: "number \<Rightarrow> bool" where
  "is_zero (Num x) = (x = 0)"
| "is_zero NegZero = True"
| "is_zero a = False"

definition signed_zero :: "bool \<Rightarrow> number" where
  "signed_zero negative = (if negative then NegZero else Num 0)"

definition signed_infinity :: "bool \<Rightarrow> number" where
  "signed_infinity negative = (if negative then NegInfinity else Infinity)"

text \<open>\<^verbatim>\<open>-a\<close>.\<close>

fun js_neg :: "number \<Rightarrow> number" where
  "js_neg (Num x) = (if x = 0 then NegZero else Num (- x))"
| "js_neg NegZero = Num 0"
| "js_neg Infinity = NegInfinity"
| "js_neg NegInfinity = Infinity"
| "js_neg NaN = NaN"

text \<open>
  \<^verbatim>\<open>a + b\<close>. An exact sum of zero is \<^verbatim>\<open>+0\<close>, unless both operands are \<^verbatim>\<open>-0\<close>.
\<close>

definition js_add :: "number \<Rightarrow> number \<Rightarrow> number" where
  "js_add a b =
     (if a = NaN \<or> b = NaN then NaN
      else if is_infinite a then
        (if is_infinite b \<and> a \<noteq> b then NaN else a)
      else if is_infinite b then b
      else if a = NegZero \<and> b = NegZero then NegZero
      else if finite_value a + finite_value b = 0 then Num 0
      else round_double (finite_value a + finite_value b))"

text \<open>\<^verbatim>\<open>a - b\<close>.\<close>

definition js_sub :: "number \<Rightarrow> number \<Rightarrow> number" where
  "js_sub a b = js_add a (js_neg b)"

text \<open>\<^verbatim>\<open>a * b\<close>: the sign of the result is the exclusive or of the operands' signs.\<close>

definition js_mul :: "number \<Rightarrow> number \<Rightarrow> number" where
  "js_mul a b =
     (if a = NaN \<or> b = NaN then NaN
      else if is_infinite a \<or> is_infinite b then
        (if is_zero a \<or> is_zero b then NaN
         else signed_infinity (is_negative a \<noteq> is_negative b))
      else if finite_value a * finite_value b = 0 then
        signed_zero (is_negative a \<noteq> is_negative b)
      else round_double (finite_value a * finite_value b))"

text \<open>\<^verbatim>\<open>a / b\<close>: no exception, a zero divisor gives an infinity or \<^verbatim>\<open>NaN\<close>.\<close>

definition js_div :: "number \<Rightarrow> number \<Rightarrow> number" where
  "js_div a b =
     (if a = NaN \<or> b = NaN then NaN
      else if is_infinite a then
        (if is_infinite b then NaN else signed_infinity (is_negative a \<noteq> is_negative b))
      else if is_infinite b then signed_zero (is_negative a \<noteq> is_negative b)
      else if is_zero b then
        (if is_zero a then NaN else signed_infinity (is_negative a \<noteq> is_negative b))
      else if is_zero a then signed_zero (is_negative a \<noteq> is_negative b)
      else round_double (finite_value a / finite_value b))"

text \<open>\<^verbatim>\<open>a >= b\<close>: false when either side is \<^verbatim>\<open>NaN\<close>; the two zeros are equal.\<close>

definition js_ge :: "number \<Rightarrow> number \<Rightarrow> bool" where
  "js_ge a b =
     (if a = NaN \<or> b = NaN then False
      else if a = Infinity \<or> b = NegInfinity then True
      else if a = NegInfinity \<or> b = Infinity then False
      else finite_value b \<le> finite_value a)"

text \<open>Truthiness of a number: the zeros and \<^verbatim>\<open>NaN\<close> are falsy.\<close>

fun js_truthy :: "number \<Rightarrow> bool" where
  "js_truthy (Num x) = (x \<noteq> 0)"
| "js_truthy NegZero = False"
| "js_truthy NaN = False"
| "js_truthy a = True"

text \<open>\<^verbatim>\<open>a || b\<close> on numbers.\<close>

definition js_or :: "number \<Rightarrow> number \<Rightarrow> number" where
  "js_or a b = (if js_truthy a then a else b)"

text \<open>
  \<^verbatim>\<open>Math.min(...xs)\<close> and \<^verbatim>\<open>Math.max(...xs)\<close>; \<^verbatim>\<open>-0\<close> counts as less than \<^verbatim>\<open>+0\<close>.
\<close>

definition min2 :: "number \<Rightarrow> number \<Rightarrow> number" where
  "min2 a b =
     (if a = NaN \<or> b = NaN then NaN
      else if js_ge b a then (if a = Num 0 \<and> b = NegZero then b else a)
      else b)"

definition max2 :: "number \<Rightarrow> number \<Rightarrow> number" where
  "max2 a b =
     (if a = NaN \<or> b = NaN then NaN
      else if js_ge a b then (if a = NegZero \<and> b = Num 0 then b else a)
      else b)"

fun Math_min :: "number list \<Rightarrow> number" where
  "Math_min [] = Infinity"
| "Math_min (x # xs) = min2 x (Math_min xs)"

fun Math_max :: "number list \<Rightarrow> number" where
  "Math_max [] = NegInfinity"
| "Math_max (x # xs) = max2 x (Math_max xs)"

text \<open>The decimal digits of a natural number.\<close>

fun show_nat :: "nat \<Rightarrow> string" where
  "show_nat n =
     (if n < 10 then [''0123456789'' ! n]
      else show_nat (n div 10) @ [''0123456789'' ! (n mod 10)])"

declare show_nat.simps [simp del]

text \<open>
  What the runtime provides and the model takes as given: \<^verbatim>\<open>Number::toString\<close> of a
  finite number (used by template literals, and by \<^verbatim>\<open>toFixed\<close> for a magnitude of
  \<open>10^21\<close> or more) and the \<^verbatim>\<open>en-US\<close> currency format of \<^verbatim>\<open>Intl.NumberFormat\<close> with
  no fraction digits.
\<close>

record runtime =
  Number_toString :: "number \<Rightarrow> string"
  Intl_currency :: "number \<Rightarrow> string"

text \<open>
  \<^verbatim>\<open>Number.prototype.toFixed(f)\<close>. \<^verbatim>\<open>NaN\<close> and the infinities print as their names. A
  finite number of magnitude \<open>10^21\<close> or more is printed by \<^verbatim>\<open>toString\<close>. Otherwise
  the magnitude \<open>a\<close> of the double (its exact value) is replaced by the integer \<open>n\<close> for
  which \<open>n / 10^f - a\<close> is closest to zero (the larger one on a tie), and \<open>n\<close> is printed
  with \<open>f\<close> digits after the point, zero-padded on the left, after a minus sign when the
  number is less than zero.
\<close>

definition round_scaled :: "nat \<Rightarrow> rat \<Rightarrow> nat" where
  "round_scaled f a = nat \<lfloor>a * 10 ^ f + 1 / 2\<rfloor>"

definition print_scaled :: "nat \<Rightarrow> nat \<Rightarrow> string" where
  "print_scaled f n =
     (let m = (if n = 0 then ''0'' else show_nat n)
      in if f \<noteq> 0 then
           (let k = length m;
                m = (if k \<le> f then replicate (f + 1 - k) CHR ''0'' @ m else m);
                k = (if k \<le> f then f + 1 else k)
            in take (k - f) m @ ''.'' @ drop (k - f) m)
         else m)"

definition toFixed :: "runtime \<Rightarrow> nat \<Rightarrow> number \<Rightarrow> string" where
  "toFixed rt f x =
     (case x of
        Num q \<Rightarrow>
          (let s = (if q < 0 then ''-'' else []);
               a = \<bar>q\<bar>
           in if 10 ^ 21 \<le> a then s @ Number_toString rt (Num a)
              else s @ print_scaled f (round_scaled f a))
      | NegZero \<Rightarrow> print_scaled f (round_scaled f 0)
      | Infinity \<Rightarrow> ''Infinity''
      | NegInfinity \<Rightarrow> ''-Infinity''
      | NaN \<Rightarrow> ''NaN'')"

section \<open>The chart widget \<^verbatim>\<open>BitcoinChartWidget\<close>\<close>

text \<open>An element of \<^verbatim>\<open>chartData\<close>.\<close>

record sample =
  price :: number
  timestamp :: number

record timeframe_option =
  label :: string
  option_value :: string
  days :: nat

definition CHART_TIMEFRAMES :: "timeframe_option list" where
  "CHART_TIMEFRAMES =
     [\<lparr>label = ''1D'', option_value = ''1D'', days = 1\<rparr>,
      \<lparr>label = ''7D'', option_value = ''7D'', days = 7\<rparr>,
      \<lparr>label = ''30D'', option_value = ''30D'', days = 30\<rparr>,
      \<lparr>label = ''90D'', option_value = ''90D'', days = 90\<rparr>,
      \<lparr>label = ''1Y'', option_value = ''1Y'', days = 365\<rparr>]"

text \<open>The four \<^verbatim>\<open>useState\<close> cells of the widget.\<close>

record chart_state =
  timeframe :: string
  chartData :: "sample list"
  loading :: bool
  error :: "string option"

text \<open>
  The \<^verbatim>\<open>Response\<close> of the market-chart request: \<open>chart_json\<close> is the outcome of
  \<^verbatim>\<open>await response.json()\<close>, reduced to \<^verbatim>\<open>data.prices\<close> as a list of
  \<^verbatim>\<open>[timestamp, price]\<close> pairs (\<open>None\<close> when the field is missing).
\<close>

record chart_response =
  chart_ok :: bool
  chart_json :: "exn + (number \<times> number) list option"

text \<open>
  What the browser provides while \<^verbatim>\<open>fetchChartData\<close> runs: the network, and the values
  of \<^verbatim>\<open>Date.now()\<close> and \<^verbatim>\<open>Math.random()\<close> in the \<open>i\<close>-th callback of
  \<^verbatim>\<open>Array.from\<close>.
\<close>

record browser =
  fetch_chart :: "string \<Rightarrow> exn + chart_response"
  Date_now :: "nat \<Rightarrow> number"
  Math_random :: "nat \<Rightarrow> number"

text \<open>The \<^verbatim>\<open>try\<close> block of \<^verbatim>\<open>fetchChartData\<close> (lines 40-59), up to the state updates.\<close>

definition fetchChartData_try :: "browser \<Rightarrow> chart_state \<Rightarrow> exn + sample list" where
  "fetchChartData_try w st =
     (let selectedTimeframe = find (\<lambda>t. option_value t = timeframe st) CHART_TIMEFRAMES;
          days = (case selectedTimeframe of
                    None \<Rightarrow> 7
                  | Some t \<Rightarrow> if days t \<noteq> 0 then days t else 7)
      in case fetch_chart w
                (''https://api.coingecko.com/api/v3/coins/bitcoin/market_chart?vs_currency=usd&days=''
                 @ show_nat days @ ''&interval='' @ (if days = 1 then ''hourly'' else ''daily'')) of
           Inl e \<Rightarrow> Inl e
         | Inr response \<Rightarrow>
             if \<not> chart_ok response then Inl Error
             else
               (case chart_json response of
                  Inl e \<Rightarrow> Inl e
                | Inr None \<Rightarrow> Inl TypeError
                | Inr (Some prices) \<Rightarrow>
                    Inr (map (\<lambda>(timestamp, price). \<lparr>price = price, timestamp = timestamp\<rparr>)
                           prices)))"

text \<open>The fallback series built in the \<^verbatim>\<open>catch\<close> block (lines 63-66).\<close>

definition mockData :: "browser \<Rightarrow> sample list" where
  "mockData w =
     map (\<lambda>i. \<lparr>price = js_sub (js_add (Num 70000) (js_mul (Math_random w i) (Num 10000)))
                          (Num 5000),
               timestamp = js_sub (Date_now w i)
                             (js_mul (js_mul (js_mul (js_mul (js_sub (Num 19) (Num (of_nat i)))
                                (Num 24)) (Num 60)) (Num 60)) (Num 1000))\<rparr>)
       [0 ..< 20]"

text \<open>\<^verbatim>\<open>fetchChartData\<close>: the state once the function has run to its end.\<close>

definition fetchChartData :: "browser \<Rightarrow> chart_state \<Rightarrow> chart_state" where
  "fetchChartData w st =
     (let st = st\<lparr>loading := True\<rparr>;
          st = (case fetchChartData_try w st of
                  Inr formattedData \<Rightarrow> st\<lparr>chartData := formattedData, error := None\<rparr>
                | Inl e \<Rightarrow>
                    st\<lparr>error := Some ''Failed to load chart data'', chartData := mockData w\<rparr>)
      in st\<lparr>loading := False\<rparr>)"

text \<open>An array read \<^verbatim>\<open>xs[i]\<close>: \<^verbatim>\<open>undefined\<close> (here \<open>None\<close>) out of range.\<close>

definition at_index :: "'a list \<Rightarrow> nat \<Rightarrow> 'a option" where
  "at_index xs i = (if i < length xs then Some (xs ! i) else None)"

record change =
  amount :: number
  percentage :: number

text \<open>
  \<^verbatim>\<open>calculateChange\<close> (lines 92-99). Reading \<^verbatim>\<open>.price\<close> of \<^verbatim>\<open>undefined\<close> would throw a
  \<^verbatim>\<open>TypeError\<close>.
\<close>

definition calculateChange :: "sample list \<Rightarrow> exn + change" where
  "calculateChange series =
     (if length series < 2 then Inr \<lparr>amount = Num 0, percentage = Num 0\<rparr>
      else
        (case at_index series 0 of
           None \<Rightarrow> Inl TypeError
         | Some s0 \<Rightarrow>
             (case at_index series (length series - 1) of
                None \<Rightarrow> Inl TypeError
              | Some sn \<Rightarrow>
                  let first = price s0;
                      last = price sn;
                      amount = js_sub last first;
                      percentage = js_mul (js_div amount first) (Num 100)
                  in Inr \<lparr>amount = amount, percentage = percentage\<rparr>)))"

text \<open>
  The block the widget shows when it is not loading (lines 157-166): the CSS class of the
  two lines and the text children of each.
\<close>

record change_view =
  colour :: string
  amount_line :: "string list"
  percentage_line :: "string list"

definition change_display :: "runtime \<Rightarrow> chart_state \<Rightarrow> exn + change_view option" where
  "change_display rt st =
     (case calculateChange (chartData st) of
        Inl e \<Rightarrow> Inl e
      | Inr change \<Rightarrow>
          let isPositive = js_ge (amount change) (Num 0)
          in Inr (if \<not> loading st then
                    Some \<lparr>colour = (if isPositive then ''text-green-500'' else ''text-red-500''),
                          amount_line = [if isPositive then ''+'' else [],
                                         Intl_currency rt (amount change)],
                          percentage_line = [if isPositive then ''+'' else [],
                                             toFixed rt 2 (percentage change), ''%'']\<rparr>
                  else None))"

text \<open>\<^verbatim>\<open>maxPrice - minPrice || 1\<close>, the divisor of the vertical mapping.\<close>

definition priceRange :: "number list \<Rightarrow> number" where
  "priceRange prices = js_or (js_sub (Math_max prices) (Math_min prices)) (Num 1)"

text \<open>
  The coordinates \<^verbatim>\<open>createPath\<close> computes (lines 108-119), before they are printed.
\<close>

definition createPath_points :: "sample list \<Rightarrow> (number \<times> number) list" where
  "createPath_points series =
     (let width = Num 400;
          height = Num 120;
          padding = Num 10;
          prices = map price series;
          minPrice = Math_min prices
      in map (\<lambda>(index, point).
                (js_add padding
                   (js_mul (js_div (Num (of_nat index))
                              (js_sub (Num (of_nat (length series))) (Num 1)))
                      (js_sub width (js_mul (Num 2) padding))),
                 js_sub (js_sub height padding)
                   (js_mul (js_div (js_sub (price point) minPrice) (priceRange prices))
                      (js_sub height (js_mul (Num 2) padding)))))
           (enumerate 0 series))"

definition print_point :: "runtime \<Rightarrow> number \<times> number \<Rightarrow> string" where
  "print_point rt p = Number_toString rt (fst p) @ '','' @ Number_toString rt (snd p)"

definition createPath :: "runtime \<Rightarrow> sample list \<Rightarrow> string" where
  "createPath rt series =
     (if length series = 0 then []
      else ''M '' @ join '' L '' (map (print_point rt) (createPath_points series)))"

text \<open>The coordinates \<^verbatim>\<open>createGradient\<close> computes (lines 129-140): the same text.\<close>

definition createGradient_points :: "sample list \<Rightarrow> (number \<times> number) list" where
  "createGradient_points series =
     (let width = Num 400;
          height = Num 120;
          padding = Num 10;
          prices = map price series;
          minPrice = Math_min prices
      in map (\<lambda>(index, point).
                (js_add padding
                   (js_mul (js_div (Num (of_nat index))
                              (js_sub (Num (of_nat (length series))) (Num 1)))
                      (js_sub width (js_mul (Num 2) padding))),
                 js_sub (js_sub height padding)
                   (js_mul (js_div (js_sub (price point) minPrice) (priceRange prices))
                      (js_sub height (js_mul (Num 2) padding)))))
           (enumerate 0 series))"

definition createGradient :: "runtime \<Rightarrow> sample list \<Rightarrow> string" where
  "createGradient rt series =
     (if length series = 0 then []
      else ''M '' @ join '' L '' (map (print_point rt) (createGradient_points series))
           @ '' L '' @ Number_toString rt (js_sub (Num 400) (Num 10)) @ '',''
           @ Number_toString rt (js_sub (Num 120) (Num 10))
           @ '' L '' @ Number_toString rt (Num 10) @ '',''
           @ Number_toString rt (js_sub (Num 120) (Num 10)) @ '' Z'')"

text \<open>
  The chart area (lines 187-304): a spinner while loading, the "Failed to load chart"
  panel with its Retry button when \<open>error\<close> is set, the SVG with the two paths otherwise.
\<close>

datatype chart_area = Spinner | FailedToLoadChart | ChartSvg string string

definition chart_area_view :: "runtime \<Rightarrow> chart_state \<Rightarrow> chart_area" where
  "chart_area_view rt st =
     (if loading st then Spinner
      else if (case error st of None \<Rightarrow> False | Some msg \<Rightarrow> msg \<noteq> []) then FailedToLoadChart
      else ChartSvg (createGradient rt (chartData st)) (createPath rt (chartData st)))"


section \<open>The calculator widget \<^verbatim>\<open>IkonPassCalculator\<close>\<close>

definition ikonPrices :: "(string \<times> number) list" where
  "ikonPrices =
     [(''2018'', Num 999), (''2019'', Num 999), (''2020'', Num 1049), (''2021'', Num 1149),
      (''2022'', Num 1169), (''2023'', Num 1159), (''2024'', Num 1429)]"

definition btcHistoricalPrices :: "(string \<times> number) list" where
  "btcHistoricalPrices =
     [(''2018'', Num 6347), (''2019'', Num 9150), (''2020'', Num 13780), (''2021'', Num 61350),
      (''2022'', Num 20550), (''2023'', Num 34500), (''2024'', Num 69500)]"

text \<open>The two \<^verbatim>\<open>useState\<close> cells of the calculator; \<open>None\<close> is \<^verbatim>\<open>null\<close>.\<close>

record calculator_state =
  selectedYear :: string
  btcPrice :: "number option"

text \<open>A property read \<^verbatim>\<open>table[key]\<close> used as a number: \<^verbatim>\<open>undefined\<close> becomes \<^verbatim>\<open>NaN\<close>.\<close>

definition to_number :: "number option \<Rightarrow> number" where
  "to_number v = (case v of None \<Rightarrow> NaN | Some x \<Rightarrow> x)"

text \<open>\<^verbatim>\<open>btcPrice || 70000\<close> (line 509).\<close>

definition currentBtcPrice :: "number option \<Rightarrow> number" where
  "currentBtcPrice b = (case b of None \<Rightarrow> Num 70000 | Some p \<Rightarrow> js_or p (Num 70000))"

record what_if =
  passPrice :: "number option"
  btcAmount :: number
  currentValue :: number
  gainLoss :: number
  gainLossPercent :: number
  historicalBtcPrice :: "number option"

text \<open>\<^verbatim>\<open>calculateWhatIf\<close> (lines 506-524).\<close>

definition calculateWhatIf :: "calculator_state \<Rightarrow> what_if" where
  "calculateWhatIf st =
     (let pass = map_of ikonPrices (selectedYear st);
          historical = map_of btcHistoricalPrices (selectedYear st);
          current = currentBtcPrice (btcPrice st);
          amount = js_div (to_number pass) (to_number historical);
          val = js_mul amount current;
          gain = js_sub val (to_number pass);
          gainPercent = js_mul (js_div (js_sub val (to_number pass)) (to_number pass)) (Num 100)
      in \<lparr>passPrice = pass, btcAmount = amount, currentValue = val, gainLoss = gain,
          gainLossPercent = gainPercent, historicalBtcPrice = historical\<rparr>)"

text \<open>The "Bitcoin Amount" line (line 567): its text children.\<close>

definition bitcoin_amount_line :: "runtime \<Rightarrow> calculator_state \<Rightarrow> string list" where
  "bitcoin_amount_line rt st = [toFixed rt 6 (btcAmount (calculateWhatIf st)), '' BTC'']"


section \<open>Concrete runtimes, states and browsers\<close>

text \<open>
  A runtime that prints a finite number as its nearest integer, without digit grouping.
\<close>

definition print_integer :: "number \<Rightarrow> string" where
  "print_integer x =
     (case x of
        Num q \<Rightarrow> (if q < 0 then ''-'' else []) @ show_nat (round_scaled 0 \<bar>q\<bar>)
      | NegZero \<Rightarrow> ''0''
      | Infinity \<Rightarrow> ''Infinity''
      | NegInfinity \<Rightarrow> ''-Infinity''
      | NaN \<Rightarrow> ''NaN'')"

definition integer_runtime :: runtime where
  "integer_runtime =
     \<lparr>Number_toString = print_integer, Intl_currency = (\<lambda>x. CHR ''$'' # print_integer x)\<rparr>"

text \<open>A series that rises from 100 to 110, shown after loading.\<close>

definition rising_state :: chart_state where
  "rising_state =
     \<lparr>timeframe = ''7D'',
      chartData = [\<lparr>price = Num 100, timestamp = Num 0\<rparr>,
                   \<lparr>price = Num 110, timestamp = Num 86400000\<rparr>],
      loading = False, error = None\<rparr>"

text \<open>A series from 40000 to 40030, and one from 0 to 0.\<close>

definition tie_state :: chart_state where
  "tie_state =
     \<lparr>timeframe = ''1D'',
      chartData = [\<lparr>price = Num 40000, timestamp = Num 0\<rparr>,
                   \<lparr>price = Num 40030, timestamp = Num 86400000\<rparr>],
      loading = False, error = None\<rparr>"

definition zero_state :: chart_state where
  "zero_state =
     \<lparr>timeframe = ''1D'',
      chartData = [\<lparr>price = Num 0, timestamp = Num 0\<rparr>,
                   \<lparr>price = Num 0, timestamp = Num 86400000\<rparr>],
      loading = False, error = None\<rparr>"

text \<open>A series with one sample, and one with three samples at the same price.\<close>

definition single_state :: chart_state where
  "single_state =
     \<lparr>timeframe = ''7D'', chartData = [\<lparr>price = Num 100, timestamp = Num 0\<rparr>],
      loading = False, error = None\<rparr>"

definition flat_series :: "sample list" where
  "flat_series =
     [\<lparr>price = Num 70000, timestamp = Num 0\<rparr>,
      \<lparr>price = Num 70000, timestamp = Num 86400000\<rparr>,
      \<lparr>price = Num 70000, timestamp = Num 172800000\<rparr>]"

text \<open>
  A browser whose network rejects every request, with a fixed clock and
  \<^verbatim>\<open>Math.random()\<close> always one half; and the widget's initial state.
\<close>

definition offline_browser :: browser where
  "offline_browser =
     \<lparr>fetch_chart = (\<lambda>u. Inl NetworkError),
      Date_now = (\<lambda>i. Num 1700000000000),
      Math_random = (\<lambda>i. Num (1 / 2))\<rparr>"

definition initial_state :: chart_state where
  "initial_state = \<lparr>timeframe = ''7D'', chartData = [], loading = True, error = None\<rparr>"


section \<open>Facts about the proxy route\<close>

lemma NextResponse_json_500:
  "NextResponse_json data 500 = Inr \<lparr>res_status = 500, res_body = data\<rparr>"
  by (simp add: NextResponse_json_def)

lemma NextResponse_json_200:
  "NextResponse_json data 200 = Inr \<lparr>res_status = 200, res_body = data\<rparr>"
  by (simp add: NextResponse_json_def)

lemma route_unfold:
  "route m env request params fetch = catch_error (route_try m env request params fetch)"
  by (cases m) (simp_all add: GET_def POST_def PATCH_def DELETE_def)

lemma route_try_not_configured:
  assumes "STRIKE_API_KEY env = None \<or> STRIKE_API_KEY env = Some []"
  shows "route_try m env request params fetch =
           (Inr \<lparr>res_status = 500,
                 res_body = JObj [(''error'', JStr ''Strike API key not configured'')]\<rparr>, [])"
  using assms
  by (cases m)
     (auto simp: GET_try_def POST_try_def PATCH_try_def DELETE_try_def NextResponse_json_500)

text \<open>
  C1. Whatever the method, when \<^verbatim>\<open>STRIKE_API_KEY\<close> is absent from the environment (or is
  the empty string, which \<^verbatim>\<open>!apiKey\<close> treats alike) the handler returns status 500 with the
  body \<^verbatim>\<open>{ error: 'Strike API key not configured' }\<close>, whose message contains
  "not configured", and makes no outbound call.
\<close>

theorem missing_key_500_no_fetch:
  assumes "STRIKE_API_KEY env = None \<or> STRIKE_API_KEY env = Some []"
  shows "route m env request params fetch =
           (Inr \<lparr>res_status = 500,
                 res_body = JObj [(''error'', JStr ''Strike API key not configured'')]\<rparr>, [])
         \<and> str_includes ''Strike API key not configured'' ''not configured''"
proof -
  have "str_includes ''Strike API key not configured'' ''not configured''"
    by simp
  moreover have "route m env request params fetch =
           (Inr \<lparr>res_status = 500,
                 res_body = JObj [(''error'', JStr ''Strike API key not configured'')]\<rparr>, [])"
    by (simp add: route_unfold route_try_not_configured [OF assms] catch_error_def)
  ultimately show ?thesis by simp
qed

theorem missing_key_500_no_fetch_witness:
  "STRIKE_API_KEY env_unset = None \<and>
   route HTTP_GET env_unset foo_request foo_params fetch_200_json =
     (Inr \<lparr>res_status = 500,
           res_body = JObj [(''error'', JStr ''Strike API key not configured'')]\<rparr>, [])"
  using missing_key_500_no_fetch [of env_unset HTTP_GET foo_request foo_params fetch_200_json]
  by (simp add: env_unset_def)

lemma catch_error_Inl:
  "catch_error (Inl e, calls) =
     (Inr \<lparr>res_status = 500,
           res_body = JObj [(''error'', JStr ''Failed to communicate with Strike API'')]\<rparr>, calls)"
  by (simp add: catch_error_def NextResponse_json_500)

lemma catch_error_Inr: "catch_error (Inr r, calls) = (Inr r, calls)"
  by (simp add: catch_error_def)







lemma route_try_calls:
  assumes "STRIKE_API_KEY env = Some apiKey" and "apiKey \<noteq> []"
    and "params = Inr segments"
    and "m = HTTP_POST \<or> m = HTTP_PATCH \<Longrightarrow> \<exists>b. request_json request = Inr b"
  shows "map url (snd (route_try m env request params fetch)) =
           [case m of
              HTTP_GET \<Rightarrow> spec_upstream_url segments (searchParams request)
            | _ \<Rightarrow> STRIKE_API_BASE @ ''/'' @ join ''/'' segments]"
  using assms
  by (cases m)
     (auto simp: GET_try_def POST_try_def PATCH_try_def DELETE_try_def Let_def
           spec_upstream_url_def split: sum.splits option.splits)

lemma snd_catch_error: "snd (catch_error r) = snd r"
  by (cases r) (auto simp: catch_error_def split: sum.splits)

text \<open>
  C7, as the code has it. With a configured key and resolved path segments (and, for
  \<^verbatim>\<open>POST\<close> and \<^verbatim>\<open>PATCH\<close>, a request body that parses), the handler makes exactly one
  outbound call. For \<^verbatim>\<open>GET\<close> its URL is the base, \<^verbatim>\<open>/\<close>, the segments joined by \<^verbatim>\<open>/\<close>
  and, when the serialised query is not empty, \<^verbatim>\<open>?\<close> and the query. For \<^verbatim>\<open>POST\<close>,
  \<^verbatim>\<open>PATCH\<close> and \<^verbatim>\<open>DELETE\<close> it is the base, \<^verbatim>\<open>/\<close> and the joined segments: the query is
  not forwarded.
\<close>

theorem upstream_url_by_method:
  assumes "STRIKE_API_KEY env = Some apiKey" and "apiKey \<noteq> []"
    and "params = Inr segments"
    and "m = HTTP_POST \<or> m = HTTP_PATCH \<Longrightarrow> \<exists>b. request_json request = Inr b"
  shows "map url (snd (route m env request params fetch)) =
           [case m of
              HTTP_GET \<Rightarrow> spec_upstream_url segments (searchParams request)
            | _ \<Rightarrow> STRIKE_API_BASE @ ''/'' @ join ''/'' segments]"
  using route_try_calls [of env apiKey params segments m request fetch] assms
  by (simp add: route_unfold snd_catch_error)

text \<open>
  A \<^verbatim>\<open>GET\<close>, a \<^verbatim>\<open>PATCH\<close> and a \<^verbatim>\<open>DELETE\<close> to \<^verbatim>\<open>/api/strike/foo?x=1\<close>: only the first
  forwards \<^verbatim>\<open>?x=1\<close>.
\<close>

theorem upstream_url_by_method_witness:
  "STRIKE_API_KEY (env_key ''sk'') = Some ''sk'' \<and> ''sk'' \<noteq> [] \<and> foo_params = Inr [''foo'']
   \<and> request_json foo_request = Inr (JObj [(''amount'', JNum 5)])
   \<and> map url (snd (route HTTP_GET (env_key ''sk'') foo_request foo_params fetch_200_json)) =
        [''https://api.strike.me/v1/foo?x=1'']
   \<and> map url (snd (route HTTP_PATCH (env_key ''sk'') foo_request foo_params fetch_200_json)) =
        [''https://api.strike.me/v1/foo'']
   \<and> map url (snd (route HTTP_DELETE (env_key ''sk'') foo_request foo_params fetch_200_json)) =
        [''https://api.strike.me/v1/foo'']"
proof -
  have k: "STRIKE_API_KEY (env_key ''sk'') = Some ''sk''" by (simp add: env_key_def)
  have ne: "''sk'' \<noteq> []" by simp
  have p: "foo_params = Inr [''foo'']" by (simp add: foo_params_def)
  have b: "\<exists>b. request_json foo_request = Inr b" by (simp add: foo_request_def)
  have q: "searchParams foo_request = ''x=1''" by (simp add: foo_request_def)
  from upstream_url_by_method [OF k ne p, of HTTP_GET foo_request fetch_200_json]
       upstream_url_by_method [OF k ne p, of HTTP_PATCH foo_request fetch_200_json]
       upstream_url_by_method [OF k ne p, of HTTP_DELETE foo_request fetch_200_json] b k p q
  show ?thesis
    by (simp add: spec_upstream_url_def STRIKE_API_BASE_def foo_request_def)
qed

text \<open>
  C7 as stated fails: a \<^verbatim>\<open>POST\<close> to \<^verbatim>\<open>/api/strike/foo?x=1\<close> is forwarded to
  \<^verbatim>\<open>https://api.strike.me/v1/foo\<close>, not to the URL with the query string.
\<close>

theorem post_drops_query_counterexample:
  "map url (snd (route HTTP_POST (env_key ''sk'') foo_request foo_params fetch_200_json)) =
     [''https://api.strike.me/v1/foo'']
   \<and> spec_upstream_url [''foo''] (searchParams foo_request) = ''https://api.strike.me/v1/foo?x=1''
   \<and> map url (snd (route HTTP_POST (env_key ''sk'') foo_request foo_params fetch_200_json)) \<noteq>
     [spec_upstream_url [''foo''] (searchParams foo_request)]"
  by (simp add: POST_def POST_try_def env_key_def foo_request_def foo_params_def
        fetch_200_json_def ok_def relay_json_def NextResponse_json_200 catch_error_Inr
        spec_upstream_url_def STRIKE_API_BASE_def)

text \<open>
  C5, as the code has it. For a \<^verbatim>\<open>DELETE\<close> with a configured key whose outbound call
  resolves to a response with an ok status (200 to 299) and no \<^verbatim>\<open>content-type\<close> header,
  or one that does not include \<^verbatim>\<open>application/json\<close>, the proxy answers status 200 with
  exactly \<^verbatim>\<open>{ success: true }\<close>, whatever the upstream body is.
\<close>

theorem delete_non_json_success:
  assumes "STRIKE_API_KEY env = Some apiKey" and "apiKey \<noteq> []"
    and "params = Inr segments"
    and "fetch \<lparr>url = STRIKE_API_BASE @ ''/'' @ join ''/'' segments, fetch_method = ''DELETE'',
                headers = [(''Authorization'', ''Bearer '' @ apiKey),
                           (''Content-Type'', ''application/json'')],
                body = None\<rparr> = Inr response"
    and "ok response"
    and "content_type response = None \<or>
         (\<exists>ct. content_type response = Some ct \<and> \<not> str_includes ct ''application/json'')"
  shows "fst (DELETE env request params fetch) =
           Inr \<lparr>res_status = 200, res_body = JObj [(''success'', JBool True)]\<rparr>"
  using assms
  by (auto simp: DELETE_def DELETE_try_def Let_def NextResponse_json_200 catch_error_Inr)

theorem delete_non_json_success_witness:
  "STRIKE_API_KEY (env_key ''sk'') = Some ''sk'' \<and> ''sk'' \<noteq> [] \<and> foo_params = Inr [''foo'']
   \<and> ok \<lparr>status = 200, content_type = Some ''text/plain'',
          response_text = Inr ''deleted'', response_json = Inl SyntaxError\<rparr>
   \<and> \<not> str_includes ''text/plain'' ''application/json''
   \<and> fst (DELETE (env_key ''sk'') foo_request foo_params fetch_200_text) =
        Inr \<lparr>res_status = 200, res_body = JObj [(''success'', JBool True)]\<rparr>"
  using delete_non_json_success [of "env_key ''sk''" "''sk''" foo_params "[''foo'']" fetch_200_text
          "\<lparr>status = 200, content_type = Some ''text/plain'',
            response_text = Inr ''deleted'', response_json = Inl SyntaxError\<rparr>" foo_request]
  by (simp add: env_key_def foo_params_def fetch_200_text_def ok_def)

text \<open>
  C5 as stated fails: when the upstream answers a \<^verbatim>\<open>DELETE\<close> with 404 and a
  \<^verbatim>\<open>text/plain\<close> body, the proxy relays the status with the error envelope, not
  \<^verbatim>\<open>{ success: true }\<close>.
\<close>

theorem delete_404_text_counterexample:
  "\<not> str_includes ''text/plain'' ''application/json''
   \<and> DELETE (env_key ''sk'') foo_request foo_params fetch_404_text =
       (Inr \<lparr>res_status = 404,
             res_body = JObj [(''error'', JStr ''Strike API request failed''),
                              (''status'', JNum 404),
                              (''message'', JStr ''Not Found'')]\<rparr>,
        [\<lparr>url = ''https://api.strike.me/v1/foo'', fetch_method = ''DELETE'',
          headers = [(''Authorization'', ''Bearer sk''), (''Content-Type'', ''application/json'')],
          body = None\<rparr>])
   \<and> res_body \<lparr>res_status = 404,
             res_body = JObj [(''error'', JStr ''Strike API request failed''),
                              (''status'', JNum 404),
                              (''message'', JStr ''Not Found'')]\<rparr>
       \<noteq> JObj [(''success'', JBool True)]"
  by (simp add: DELETE_def DELETE_try_def env_key_def foo_params_def fetch_404_text_def ok_def
        request_failed_def NextResponse_json_def catch_error_Inr STRIKE_API_BASE_def)


lemma without_authorization_init:
  "without_authorization \<lparr>url = u, fetch_method = mth,
       headers = [(''Authorization'', a), (''Content-Type'', ''application/json'')], body = b\<rparr>
   = \<lparr>url = u, fetch_method = mth, headers = [(''Content-Type'', ''application/json'')], body = b\<rparr>"
  by (simp add: without_authorization_def)

lemma fetch_ignores_authorization:
  assumes "\<And>init. fetch init = fetch (without_authorization init)"
  shows "fetch \<lparr>url = u, fetch_method = mth,
       headers = [(''Authorization'', a), (''Content-Type'', ''application/json'')], body = b\<rparr>
    = fetch \<lparr>url = u, fetch_method = mth, headers = [(''Content-Type'', ''application/json'')], body = b\<rparr>"
  using assms [of "\<lparr>url = u, fetch_method = mth,
       headers = [(''Authorization'', a), (''Content-Type'', ''application/json'')], body = b\<rparr>"]
  by (simp add: without_authorization_init)

lemma route_try_key_free:
  assumes "k1 \<noteq> []" and "k2 \<noteq> []"
    and "\<And>init. fetch init = fetch (without_authorization init)"
  shows "fst (route_try m (env_key k1) request params fetch) =
         fst (route_try m (env_key k2) request params fetch)
       \<and> map without_authorization (snd (route_try m (env_key k1) request params fetch)) =
         map without_authorization (snd (route_try m (env_key k2) request params fetch))"
proof -
  have kf: "\<And>u mth a b. fetch \<lparr>url = u, fetch_method = mth,
       headers = [(''Authorization'', a), (''Content-Type'', ''application/json'')], body = b\<rparr>
    = fetch \<lparr>url = u, fetch_method = mth, headers = [(''Content-Type'', ''application/json'')],
              body = b\<rparr>"
    using assms(3) by (rule fetch_ignores_authorization)
  show ?thesis
    using assms(1,2)
    by (cases m)
       (auto simp: GET_try_def POST_try_def PATCH_try_def DELETE_try_def Let_def env_key_def
             kf without_authorization_init split: sum.splits option.splits)
qed

lemma route_try_headers:
  assumes "init \<in> set (snd (route_try m (env_key k) request params fetch))"
  shows "headers init = [(''Authorization'', ''Bearer '' @ k), (''Content-Type'', ''application/json'')]"
  using assms
  by (cases m)
     (auto simp: GET_try_def POST_try_def PATCH_try_def DELETE_try_def Let_def env_key_def
           split: sum.splits option.splits if_splits)

lemma fst_catch_error:
  "fst (catch_error r) =
     (case fst r of
        Inl e \<Rightarrow> Inr \<lparr>res_status = 500,
                      res_body = JObj [(''error'', JStr ''Failed to communicate with Strike API'')]\<rparr>
      | Inr response \<Rightarrow> Inr response)"
  by (cases r) (auto simp: catch_error_Inl catch_error_Inr split: sum.splits)

text \<open>
  C10. Take two runs of the same handler on the same request that differ only in the
  (non-empty) value of \<^verbatim>\<open>STRIKE_API_KEY\<close>, against an upstream whose answer does not
  depend on the \<^verbatim>\<open>Authorization\<close> header. The two responses to the caller are equal, the
  outbound calls are equal once that header is taken out, and in each run every outbound
  call carries the key in \<^verbatim>\<open>Authorization: Bearer <key>\<close> beside the fixed
  \<^verbatim>\<open>Content-Type\<close> header.
\<close>

theorem response_independent_of_key:
  assumes "k1 \<noteq> []" and "k2 \<noteq> []"
    and "\<And>init. fetch init = fetch (without_authorization init)"
  shows "fst (route m (env_key k1) request params fetch) =
         fst (route m (env_key k2) request params fetch)
       \<and> map without_authorization (snd (route m (env_key k1) request params fetch)) =
         map without_authorization (snd (route m (env_key k2) request params fetch))
       \<and> (\<forall>init \<in> set (snd (route m (env_key k1) request params fetch)).
            headers init =
              [(''Authorization'', ''Bearer '' @ k1), (''Content-Type'', ''application/json'')])"
proof -
  note kf = route_try_key_free [OF assms(1,2), of fetch m request params, OF assms(3)]
  have "fst (route m (env_key k1) request params fetch) =
        fst (route m (env_key k2) request params fetch)"
    using kf by (simp add: route_unfold fst_catch_error)
  moreover have "map without_authorization (snd (route m (env_key k1) request params fetch)) =
         map without_authorization (snd (route m (env_key k2) request params fetch))"
    using kf by (simp add: route_unfold snd_catch_error)
  moreover have "\<forall>init \<in> set (snd (route m (env_key k1) request params fetch)).
            headers init =
              [(''Authorization'', ''Bearer '' @ k1), (''Content-Type'', ''application/json'')]"
    by (simp add: route_unfold snd_catch_error route_try_headers)
  ultimately show ?thesis by blast
qed

theorem response_independent_of_key_witness:
  "''sk'' \<noteq> [] \<and> ''other'' \<noteq> []
   \<and> fetch_200_json \<lparr>url = [], fetch_method = [], headers = [(''Authorization'', ''Bearer sk'')],
                      body = None\<rparr>
     = fetch_200_json (without_authorization
         \<lparr>url = [], fetch_method = [], headers = [(''Authorization'', ''Bearer sk'')], body = None\<rparr>)
   \<and> fst (route HTTP_GET (env_key ''sk'') foo_request foo_params fetch_200_json) =
       Inr \<lparr>res_status = 200, res_body = JObj [(''id'', JNum 7)]\<rparr>
   \<and> fst (route HTTP_GET (env_key ''other'') foo_request foo_params fetch_200_json) =
       Inr \<lparr>res_status = 200, res_body = JObj [(''id'', JNum 7)]\<rparr>"
proof -
  have a: "\<And>init. fetch_200_json init = fetch_200_json (without_authorization init)"
    by (simp add: fetch_200_json_def)
  have b: "fst (route HTTP_GET (env_key ''sk'') foo_request foo_params fetch_200_json) =
       Inr \<lparr>res_status = 200, res_body = JObj [(''id'', JNum 7)]\<rparr>"
    by (simp add: GET_def GET_try_def env_key_def foo_request_def foo_params_def
          fetch_200_json_def ok_def relay_json_def NextResponse_json_200 catch_error_Inr)
  have "fst (route HTTP_GET (env_key ''sk'') foo_request foo_params fetch_200_json) =
        fst (route HTTP_GET (env_key ''other'') foo_request foo_params fetch_200_json)"
    using response_independent_of_key
            [of "''sk''" "''other''" fetch_200_json HTTP_GET foo_request foo_params] a
    by simp
  with b show ?thesis
    by (simp add: fetch_200_json_def)
qed



section \<open>Facts about rounding to a double\<close>

lemma two_powi_pos: "0 < (2::rat) powi e"
  by (simp add: zero_less_power_int)

lemma two_powi_mono: "e \<le> e' \<Longrightarrow> (2::rat) powi e \<le> 2 powi e'"
  by (rule power_int_increasing) simp_all

lemma two_powi_strict_mono: "e < e' \<Longrightarrow> (2::rat) powi e < 2 powi e'"
  by (rule power_int_strict_increasing) simp_all

lemma two_powi_add: "(2::rat) powi (m + n) = 2 powi m * 2 powi n"
  by (rule power_int_add) simp

lemma two_powi_diff: "(2::rat) powi (m - n) = 2 powi m / 2 powi n"
  by (rule power_int_diff) simp

lemma binary_exponent_unique:
  assumes "(2::rat) powi e \<le> a" and "a < 2 powi (e + 1)"
    and "(2::rat) powi e' \<le> a" and "a < 2 powi (e' + 1)"
  shows "e = e'"
proof (rule ccontr)
  assume "e \<noteq> e'"
  then consider "e < e'" | "e' < e" by linarith
  then show False
  proof cases
    case 1
    then have "(2::rat) powi (e + 1) \<le> 2 powi e'" by (intro two_powi_mono) simp
    with assms show False by linarith
  next
    case 2
    then have "(2::rat) powi (e' + 1) \<le> 2 powi e" by (intro two_powi_mono) simp
    with assms show False by linarith
  qed
qed

lemma binary_exponent_bounds:
  assumes "0 < a"
  shows "2 powi (binary_exponent a) \<le> a \<and> a < 2 powi (binary_exponent a + 1)"
proof -
  obtain p q where pq: "quotient_of a = (p, q)" by (cases "quotient_of a")
  have q: "0 < q" using pq by (rule quotient_of_denom_pos)
  have a: "a = of_int p / of_int q" using pq by (rule quotient_of_div)
  have p: "0 < p" using assms q a by (simp add: zero_less_divide_iff)
  define bp where "bp = bitlen p"
  define bq where "bq = bitlen q"
  have bp1: "1 \<le> bp" using p bitlen_eq_zero_iff [of p] bitlen_nonneg [of p]
    unfolding bp_def by linarith
  have bq1: "1 \<le> bq" using q bitlen_eq_zero_iff [of q] bitlen_nonneg [of q]
    unfolding bq_def by linarith
  have pb: "2 ^ nat (bp - 1) \<le> p" "p < 2 ^ nat bp"
    using bitlen_bounds [OF p] unfolding bp_def by auto
  have qb: "2 ^ nat (bq - 1) \<le> q" "q < 2 ^ nat bq"
    using bitlen_bounds [OF q] unfolding bq_def by auto
  have pr: "(2::rat) powi (bp - 1) \<le> of_int p" "of_int p < (2::rat) powi bp"
  proof -
    have "(of_int (2 ^ nat (bp - 1)) :: rat) \<le> of_int p" using pb(1) by (simp only: of_int_le_iff)
    then show "(2::rat) powi (bp - 1) \<le> of_int p"
      using bp1 by (simp add: power_int_nonneg_exp)
    have "(of_int p :: rat) < of_int (2 ^ nat bp)" using pb(2) by (simp only: of_int_less_iff)
    then show "of_int p < (2::rat) powi bp"
      using bp1 by (simp add: power_int_nonneg_exp)
  qed
  have qr: "(2::rat) powi (bq - 1) \<le> of_int q" "of_int q < (2::rat) powi bq"
  proof -
    have "(of_int (2 ^ nat (bq - 1)) :: rat) \<le> of_int q" using qb(1) by (simp only: of_int_le_iff)
    then show "(2::rat) powi (bq - 1) \<le> of_int q"
      using bq1 by (simp add: power_int_nonneg_exp)
    have "(of_int q :: rat) < of_int (2 ^ nat bq)" using qb(2) by (simp only: of_int_less_iff)
    then show "of_int q < (2::rat) powi bq"
      using bq1 by (simp add: power_int_nonneg_exp)
  qed
  have qpos: "(0::rat) < of_int q" using q by simp
  have upper: "a < 2 powi (bp - bq + 1)"
  proof -
    have "a * of_int q = of_int p" using a qpos by simp
    also have "\<dots> < (2::rat) powi bp" by (rule pr(2))
    also have "\<dots> = (2::rat) powi (bp - bq + 1) * 2 powi (bq - 1)"
      by (simp flip: two_powi_add)
    also have "\<dots> \<le> (2::rat) powi (bp - bq + 1) * of_int q"
      using qr(1) two_powi_pos [of "bp - bq + 1"] by (simp add: mult_left_mono)
    finally show ?thesis using qpos by simp
  qed
  have lower: "2 powi (bp - bq - 1) < a"
  proof -
    have "(2::rat) powi (bp - bq - 1) * of_int q < (2::rat) powi (bp - bq - 1) * 2 powi bq"
      using qr(2) two_powi_pos [of "bp - bq - 1"] by (simp add: mult_strict_left_mono)
    also have "\<dots> = (2::rat) powi (bp - 1)" by (simp flip: two_powi_add)
    also have "\<dots> \<le> of_int p" by (rule pr(1))
    also have "\<dots> = a * of_int q" using a qpos by simp
    finally show ?thesis using qpos by simp
  qed
  show ?thesis
  proof (cases "2 powi (bp - bq) \<le> a")
    case True
    then have "binary_exponent a = bp - bq"
      by (simp add: binary_exponent_def pq bp_def bq_def)
    with True upper show ?thesis by simp
  next
    case False
    then have e: "binary_exponent a = bp - bq - 1"
      by (simp add: binary_exponent_def pq bp_def bq_def)
    from False have "a < 2 powi (bp - bq - 1 + 1)" by simp
    with lower e show ?thesis by simp
  qed
qed

lemma binary_exponent_eq:
  assumes "(2::rat) powi e \<le> a" and "a < 2 powi (e + 1)"
  shows "binary_exponent a = e"
proof -
  have "0 < a" using assms(1) two_powi_pos [of e] by linarith
  from binary_exponent_bounds [OF this] assms show ?thesis
    using binary_exponent_unique by blast
qed

lemma round_half_even_error: "\<bar>of_int (round_half_even x) - x\<bar> \<le> 1 / 2"
proof -
  have "of_int \<lfloor>x\<rfloor> \<le> x" "x < of_int \<lfloor>x\<rfloor> + 1" by linarith+
  then show ?thesis
    by (auto simp: round_half_even_def Let_def)
qed

lemma round_half_even_eq:
  assumes "\<bar>of_int n - x\<bar> < 1 / 2"
  shows "round_half_even x = n"
proof -
  have "\<bar>of_int (round_half_even x) - x\<bar> \<le> 1 / 2" by (rule round_half_even_error)
  then have "\<bar>(of_int (round_half_even x) :: rat) - of_int n\<bar> < 1" using assms by linarith
  then have "(of_int (round_half_even x) :: rat) < of_int (n + 1)"
    and "(of_int (n - 1) :: rat) < of_int (round_half_even x)"
    by simp_all
  then have "round_half_even x < n + 1" and "n - 1 < round_half_even x"
    by (simp_all only: of_int_less_iff)
  then show ?thesis by linarith
qed


lemma round_magnitude_eval:
  assumes "(2::rat) powi e \<le> a" and "a < 2 powi (e + 1)" and "- 1022 \<le> e"
    and "\<bar>of_int n - a / 2 powi (e - 52)\<bar> < 1 / 2"
    and "of_int n * (2::rat) powi (e - 52) < 2 powi 1024"
  shows "round_magnitude negative a =
           Num (if negative then - (of_int n * 2 powi (e - 52)) else of_int n * 2 powi (e - 52))"
proof -
  have be: "binary_exponent a = e" using assms(1,2) by (rule binary_exponent_eq)
  have mx: "max e (- 1022) = e" using assms(3) by simp
  have rn: "round_half_even (a / 2 powi (e - 52)) = n" using assms(4) by (rule round_half_even_eq)
  have "(2::rat) powi 52 = 2 powi e / 2 powi (e - 52)"
    using two_powi_diff [of e "e - 52"] by simp
  also have "\<dots> \<le> a / 2 powi (e - 52)"
    using assms(1) two_powi_pos [of "e - 52"] by (simp add: divide_right_mono)
  finally have big: "(2::rat) powi 52 \<le> a / 2 powi (e - 52)" .
  have n0: "n \<noteq> 0"
  proof
    assume "n = 0"
    with assms(4) have "a / 2 powi (e - 52) < 1 / 2" by simp
    with big show False by simp
  qed
  have small: "\<not> 2 powi 1024 \<le> of_int n * (2::rat) powi (e - 52)" using assms(5) by simp
  show ?thesis
    unfolding round_magnitude_def Let_def be mx rn
    using n0 small by (simp only: if_False)
qed

lemma round_double_eval:
  assumes "(2::rat) powi e \<le> a" and "a < 2 powi (e + 1)" and "- 1022 \<le> e"
    and "\<bar>of_int n - a / 2 powi (e - 52)\<bar> < 1 / 2"
    and "of_int n * (2::rat) powi (e - 52) < 2 powi 1024"
  shows "round_double a = Num (of_int n * 2 powi (e - 52))"
proof -
  have pos: "0 < a" using assms(1) two_powi_pos [of e] by linarith
  then have "round_double a = round_magnitude False a" by (simp add: round_double_def)
  also have "\<dots> = Num (of_int n * 2 powi (e - 52))"
    using round_magnitude_eval [OF assms, of False] by (simp only: if_False)
  finally show ?thesis .
qed

lemma round_double_error:
  assumes "(2::rat) powi e \<le> a" and "a < 2 powi (e + 1)" and "- 1022 \<le> e" and "e < 1023"
  shows "\<exists>r. round_double a = Num r \<and> \<bar>r - a\<bar> \<le> 2 powi (e - 53)"
proof -
  have pos: "0 < a" using assms(1) two_powi_pos [of e] by linarith
  have be: "binary_exponent a = e" using assms(1,2) by (rule binary_exponent_eq)
  have mx: "max e (- 1022) = e" using assms(3) by simp
  define ulp :: rat where "ulp = 2 powi (e - 52)"
  define n where "n = round_half_even (a / ulp)"
  have ulp: "0 < ulp" unfolding ulp_def by (rule two_powi_pos)
  have half: "ulp / 2 = 2 powi (e - 53)"
    unfolding ulp_def using two_powi_diff [of "e - 52" 1] by simp
  have err: "\<bar>of_int n - a / ulp\<bar> \<le> 1 / 2" unfolding n_def by (rule round_half_even_error)
  have "of_int n * ulp - a = (of_int n - a / ulp) * ulp"
    using ulp by (simp add: field_simps)
  then have "\<bar>of_int n * ulp - a\<bar> = \<bar>of_int n - a / ulp\<bar> * ulp"
    using ulp by (simp add: abs_mult)
  also have "\<dots> \<le> 1 / 2 * ulp" using err ulp by (simp add: mult_right_mono)
  finally have bound: "\<bar>of_int n * ulp - a\<bar> \<le> 2 powi (e - 53)" using half by simp
  have "(2::rat) powi 52 = 2 powi e / ulp"
    unfolding ulp_def using two_powi_diff [of e "e - 52"] by simp
  also have "\<dots> \<le> a / ulp" using assms(1) ulp by (simp add: divide_right_mono)
  finally have big: "(2::rat) powi 52 \<le> a / ulp" .
  have n0: "n \<noteq> 0"
  proof
    assume "n = 0"
    with err have "\<bar>a / ulp\<bar> \<le> 1 / 2" by simp
    then have "a / ulp \<le> 1 / 2" by linarith
    with big show False by simp
  qed
  have "(2::rat) powi (e - 53) \<le> 2 powi e" by (rule two_powi_mono) simp
  then have "of_int n * ulp < 2 powi (e + 1) + 2 powi e" using bound assms(2) by linarith
  also have "\<dots> \<le> 2 powi 1023 + 2 powi 1023"
    using two_powi_mono [of "e + 1" 1023] two_powi_mono [of e 1023] assms(4) by linarith
  also have "\<dots> = (2::rat) powi 1024" using two_powi_add [of 1023 1] by simp
  finally have small: "\<not> 2 powi 1024 \<le> of_int n * ulp" by simp
  have "round_magnitude False a = Num (of_int n * ulp)"
    unfolding round_magnitude_def Let_def be mx n_def [symmetric] ulp_def [symmetric]
    using n0 small by (simp only: if_False)
  then have "round_double a = Num (of_int n * ulp)"
    using pos by (simp add: round_double_def)
  with bound show ?thesis by simp
qed

lemma round_double_of_int:
  assumes "0 < k" and "k < 2 ^ 53"
  shows "round_double (of_int k) = Num (of_int k)"
proof -
  define a :: rat where "a = of_int k"
  have pos: "0 < a" using assms(1) by (simp add: a_def)
  define e where "e = binary_exponent a"
  have b: "2 powi e \<le> a" "a < 2 powi (e + 1)"
    using binary_exponent_bounds [OF pos] by (simp_all add: e_def)
  have one: "(2::rat) powi 0 \<le> a" using assms(1) by (simp add: a_def)
  have e0: "0 \<le> e"
  proof (rule ccontr)
    assume "\<not> 0 \<le> e"
    then have "(2::rat) powi (e + 1) \<le> 2 powi 0" by (intro two_powi_mono) simp
    with b(2) one show False by linarith
  qed
  have "(of_int k :: rat) < of_int (2 ^ 53)" using assms(2) by (simp only: of_int_less_iff)
  then have lt: "a < 2 powi 53" by (simp add: a_def)
  have e52: "e \<le> 52"
  proof (rule ccontr)
    assume "\<not> e \<le> 52"
    then have "(2::rat) powi 53 \<le> 2 powi e" by (intro two_powi_mono) simp
    with b(1) lt show False by linarith
  qed
  define n where "n = k * 2 ^ nat (52 - e)"
  have ulp: "(2::rat) powi (e - 52) = 1 / 2 ^ nat (52 - e)"
  proof -
    have "(2::rat) powi (e - 52) = 2 powi (- (52 - e))" by simp
    also have "\<dots> = 1 / 2 powi (52 - e)" by (simp only: power_int_minus_divide)
    also have "\<dots> = 1 / 2 ^ nat (52 - e)" using e52 by (simp add: power_int_nonneg_exp)
    finally show ?thesis .
  qed
  have exact: "of_int n * (2::rat) powi (e - 52) = a"
    by (simp add: n_def ulp a_def)
  have quot: "a / 2 powi (e - 52) = of_int n"
    by (simp add: n_def ulp a_def)
  have "round_double a = Num (of_int n * 2 powi (e - 52))"
  proof (rule round_double_eval [OF b])
    show "- 1022 \<le> e" using e0 by simp
    show "\<bar>of_int n - a / 2 powi (e - 52)\<bar> < 1 / 2" by (simp add: quot)
    have "a < 2 powi 1024" using lt two_powi_mono [of 53 1024] by linarith
    then show "of_int n * (2::rat) powi (e - 52) < 2 powi 1024" by (simp only: exact)
  qed
  then show ?thesis by (simp only: exact) (simp add: a_def)
qed

lemma round_double_numeral [simp]:
  "numeral w < (2::int) ^ 53 \<Longrightarrow> round_double (numeral w) = Num (numeral w)"
  using round_double_of_int [of "numeral w"] by simp

lemma round_double_one [simp]: "round_double 1 = Num 1"
  using round_double_of_int [of 1] by simp

lemma round_double_half: "round_double (1 / 2) = Num (1 / 2)"
  using round_double_eval [of "- 1" "1 / 2" "2 ^ 52"] by simp

lemma js_add_Num:
  "js_add (Num x) (Num y) = (if x + y = 0 then Num 0 else round_double (x + y))"
  by (simp add: js_add_def)

lemma js_sub_Num:
  "js_sub (Num x) (Num y) = (if x - y = 0 then Num 0 else round_double (x - y))"
  by (simp add: js_sub_def js_add_def)

lemma js_mul_Num:
  "js_mul (Num x) (Num y) =
     (if x * y = 0 then signed_zero ((x < 0) \<noteq> (y < 0)) else round_double (x * y))"
  by (simp add: js_mul_def)

lemma js_div_Num:
  "y \<noteq> 0 \<Longrightarrow>
   js_div (Num x) (Num y) = (if x = 0 then signed_zero (y < 0) else round_double (x / y))"
  by (simp add: js_div_def)

lemma js_ge_Num: "js_ge (Num x) (Num y) = (y \<le> x)"
  by (simp add: js_ge_def)


section \<open>Facts about the widgets\<close>

lemma round_scaled_nearest:
  assumes "0 \<le> a"
  shows "\<bar>of_nat (round_scaled f a) - a * 10 ^ f\<bar> \<le> 1 / 2"
proof -
  have "0 \<le> \<lfloor>a * 10 ^ f + 1 / 2\<rfloor>" using assms by simp
  then have "of_nat (round_scaled f a) = (of_int \<lfloor>a * 10 ^ f + 1 / 2\<rfloor> :: rat)"
    by (simp add: round_scaled_def)
  moreover have "of_int \<lfloor>a * 10 ^ f + 1 / 2\<rfloor> \<le> a * 10 ^ f + 1 / 2" by (rule of_int_floor_le)
  moreover have "a * 10 ^ f + 1 / 2 < of_int \<lfloor>a * 10 ^ f + 1 / 2\<rfloor> + 1" by linarith
  ultimately show ?thesis by linarith
qed

lemma is_finite_cases: "is_finite x \<Longrightarrow> x = NegZero \<or> (\<exists>q. x = Num q)"
  by (cases x) simp_all

lemma min2_finite:
  assumes "is_finite a" and "is_finite b"
  shows "is_finite (min2 a b) \<and> finite_value (min2 a b) = min (finite_value a) (finite_value b)"
  using is_finite_cases [OF assms(1)] is_finite_cases [OF assms(2)]
  by (auto simp: min2_def js_ge_def)

lemma max2_finite:
  assumes "is_finite a" and "is_finite b"
  shows "is_finite (max2 a b) \<and> finite_value (max2 a b) = max (finite_value a) (finite_value b)"
  using is_finite_cases [OF assms(1)] is_finite_cases [OF assms(2)]
  by (auto simp: max2_def js_ge_def)

lemma Math_min_finite:
  assumes "xs \<noteq> []" and "\<forall>x \<in> set xs. is_finite x"
  shows "is_finite (Math_min xs) \<and> (\<forall>x \<in> set xs. finite_value (Math_min xs) \<le> finite_value x)"
  using assms
proof (induction xs rule: list_nonempty_induct)
  case (single x)
  then have "is_finite x" by simp
  from is_finite_cases [OF this] show ?case by (auto simp: min2_def js_ge_def)
next
  case (cons x xs)
  then have ih: "is_finite (Math_min xs)"
      "\<forall>y \<in> set xs. finite_value (Math_min xs) \<le> finite_value y"
    and x: "is_finite x" by auto
  from min2_finite [OF x ih(1)] ih(2) show ?case by auto
qed

lemma Math_max_finite:
  assumes "xs \<noteq> []" and "\<forall>x \<in> set xs. is_finite x"
  shows "is_finite (Math_max xs) \<and> (\<forall>x \<in> set xs. finite_value x \<le> finite_value (Math_max xs))"
  using assms
proof (induction xs rule: list_nonempty_induct)
  case (single x)
  then have "is_finite x" by simp
  from is_finite_cases [OF this] show ?case by (auto simp: max2_def js_ge_def)
next
  case (cons x xs)
  then have ih: "is_finite (Math_max xs)"
      "\<forall>y \<in> set xs. finite_value y \<le> finite_value (Math_max xs)"
    and x: "is_finite x" by auto
  from max2_finite [OF x ih(1)] ih(2) show ?case by auto
qed

lemma zero_range_all_equal:
  assumes "xs \<noteq> []" and "\<forall>x \<in> set xs. is_finite x"
    and "finite_value (Math_max xs) = finite_value (Math_min xs)"
  shows "\<forall>x \<in> set xs. finite_value x = finite_value (Math_min xs)"
  using Math_min_finite [OF assms(1,2)] Math_max_finite [OF assms(1,2)] assms(3)
  by (metis order_antisym)

lemma enumerate_snd_in_set: "(i, x) \<in> set (enumerate n xs) \<Longrightarrow> x \<in> set xs"
  by (auto simp: in_set_enumerate_eq)

lemma js_sub_same_value:
  assumes "is_finite a" and "is_finite b" and "finite_value a = finite_value b"
  shows "is_zero (js_sub a b)"
proof -
  consider q where "a = Num q" "b = Num q"
    | "a = Num 0" "b = NegZero" | "a = NegZero" "b = Num 0" | "a = NegZero" "b = NegZero"
    using is_finite_cases [OF assms(1)] is_finite_cases [OF assms(2)] assms(3) by auto
  then show ?thesis
  proof cases
    case 1
    then show ?thesis by (simp add: js_sub_Num)
  next
    case 2
    then show ?thesis by (simp add: js_sub_def js_add_def)
  next
    case 3
    then show ?thesis by (simp add: js_sub_def js_add_def)
  next
    case 4
    then show ?thesis by (simp add: js_sub_def js_add_def)
  qed
qed

lemma zero_range_y:
  assumes "is_zero z"
  shows "js_sub (js_sub (Num 120) (Num 10))
           (js_mul (js_div z (Num 1)) (js_sub (Num 120) (js_mul (Num 2) (Num 10)))) = Num 110"
proof -
  have h: "js_sub (Num 120) (Num 10) = Num 110" by (simp add: js_sub_Num)
  have w: "js_sub (Num 120) (js_mul (Num 2) (Num 10)) = Num 100"
    by (simp add: js_sub_Num js_mul_Num)
  from assms consider "z = Num 0" | "z = NegZero" by (cases z) simp_all
  then show ?thesis
  proof cases
    case 1
    have "js_div (Num 0) (Num 1) = Num 0" by (simp add: js_div_Num signed_zero_def)
    moreover have "js_mul (Num 0) (Num 100) = Num 0" by (simp add: js_mul_Num signed_zero_def)
    moreover have "js_sub (Num 110) (Num 0) = Num 110" by (simp add: js_sub_Num)
    ultimately show ?thesis by (simp only: 1 h w)
  next
    case 2
    have "js_div NegZero (Num 1) = NegZero" by (simp add: js_div_def signed_zero_def)
    moreover have "js_mul NegZero (Num 100) = NegZero" by (simp add: js_mul_def signed_zero_def)
    moreover have "js_sub (Num 110) NegZero = Num 110" by (simp add: js_sub_def js_add_def)
    ultimately show ?thesis by (simp only: 2 h w)
  qed
qed

text \<open>
  C8. For a non-empty series of finite prices whose maximum equals its minimum, the
  divisor \<^verbatim>\<open>priceRange\<close> is 1 (not the zero range), and every y-coordinate that
  \<^verbatim>\<open>createPath\<close> and \<^verbatim>\<open>createGradient\<close> compute is the finite value 110, which lies
  between \<^verbatim>\<open>padding\<close> (10) and \<^verbatim>\<open>height - padding\<close> (110). The prices may be of
  either zero, and the maximum and minimum are compared as values.
\<close>

theorem zero_range_y_is_baseline:
  assumes "series \<noteq> []"
    and "\<forall>s \<in> set series. is_finite (price s)"
    and "finite_value (Math_max (map price series)) = finite_value (Math_min (map price series))"
  shows "priceRange (map price series) = Num 1
       \<and> (\<forall>p \<in> set (createPath_points series).
            snd p = Num 110 \<and> js_ge (snd p) (Num 10) \<and> js_ge (js_sub (Num 120) (Num 10)) (snd p))
       \<and> (\<forall>p \<in> set (createGradient_points series).
            snd p = Num 110 \<and> js_ge (snd p) (Num 10) \<and> js_ge (js_sub (Num 120) (Num 10)) (snd p))"
proof -
  have ne: "map price series \<noteq> []" using assms(1) by simp
  have fin: "\<forall>x \<in> set (map price series). is_finite x" using assms(2) by auto
  have mn: "is_finite (Math_min (map price series))"
    using Math_min_finite [OF ne fin] by simp
  have mx: "is_finite (Math_max (map price series))"
    using Math_max_finite [OF ne fin] by simp
  have "is_zero (js_sub (Math_max (map price series)) (Math_min (map price series)))"
    using mx mn assms(3) by (rule js_sub_same_value)
  then have "\<not> js_truthy (js_sub (Math_max (map price series)) (Math_min (map price series)))"
    by (cases "js_sub (Math_max (map price series)) (Math_min (map price series))") simp_all
  then have pr: "priceRange (map price series) = Num 1"
    by (simp add: priceRange_def js_or_def)
  have all: "\<And>s. s \<in> set series \<Longrightarrow>
      is_zero (js_sub (price s) (Math_min (map price series)))"
  proof -
    fix s assume s: "s \<in> set series"
    then have "finite_value (price s) = finite_value (Math_min (map price series))"
      using zero_range_all_equal [OF ne fin assms(3)] by simp
    with assms(2) s mn show "is_zero (js_sub (price s) (Math_min (map price series)))"
      by (intro js_sub_same_value) simp_all
  qed
  have y: "\<And>i s. (i, s) \<in> set (enumerate 0 series) \<Longrightarrow>
      js_sub (js_sub (Num 120) (Num 10))
        (js_mul (js_div (js_sub (price s) (Math_min (map price series)))
                  (priceRange (map price series)))
           (js_sub (Num 120) (js_mul (Num 2) (Num 10)))) = Num 110"
    using all [OF enumerate_snd_in_set] by (simp only: pr zero_range_y)
  have "\<forall>p \<in> set (createPath_points series). snd p = Num 110"
    unfolding createPath_points_def Let_def using y by auto
  moreover have "\<forall>p \<in> set (createGradient_points series). snd p = Num 110"
    unfolding createGradient_points_def Let_def using y by auto
  ultimately show ?thesis using pr by (simp add: js_sub_Num js_ge_Num)
qed

text \<open>Three samples at 70000: the three points lie on the line \<open>y = 110\<close>.\<close>

theorem zero_range_y_is_baseline_witness:
  "flat_series \<noteq> []
   \<and> list_all (\<lambda>s. price s = Num 70000) flat_series
   \<and> Math_max (map price flat_series) = Math_min (map price flat_series)
   \<and> createPath_points flat_series = [(Num 10, Num 110), (Num 200, Num 110), (Num 390, Num 110)]
   \<and> createGradient_points flat_series =
       [(Num 10, Num 110), (Num 200, Num 110), (Num 390, Num 110)]
   \<and> priceRange (map price flat_series) = Num 1"
proof -
  have a: "flat_series \<noteq> []" by (simp add: flat_series_def)
  have b: "\<forall>s \<in> set flat_series. is_finite (price s)" by (simp add: flat_series_def)
  have c: "Math_max (map price flat_series) = Math_min (map price flat_series)"
    by (simp add: flat_series_def min2_def max2_def js_ge_def)
  then have c': "finite_value (Math_max (map price flat_series)) =
                 finite_value (Math_min (map price flat_series))"
    by simp
  have d: "createPath_points flat_series =
             [(Num 10, Num 110), (Num 200, Num 110), (Num 390, Num 110)]"
    by (simp add: createPath_points_def flat_series_def priceRange_def js_or_def
          min2_def max2_def js_ge_def js_sub_Num js_add_Num js_mul_Num js_div_Num
          signed_zero_def round_double_half enumerate_eq_zip upt_rec)
  have e: "createGradient_points flat_series =
             [(Num 10, Num 110), (Num 200, Num 110), (Num 390, Num 110)]"
    by (simp add: createGradient_points_def flat_series_def priceRange_def js_or_def
          min2_def max2_def js_ge_def js_sub_Num js_add_Num js_mul_Num js_div_Num
          signed_zero_def round_double_half enumerate_eq_zip upt_rec)
  from zero_range_y_is_baseline [OF a b c'] a c d e show ?thesis
    by (simp add: flat_series_def)
qed

lemma at_index_0: "xs \<noteq> [] \<Longrightarrow> at_index xs 0 = Some (hd xs)"
  by (cases xs) (simp_all add: at_index_def)

lemma at_index_last: "xs \<noteq> [] \<Longrightarrow> at_index xs (length xs - Suc 0) = Some (last xs)"
  by (simp add: at_index_def last_conv_nth)

lemma calculateChange_two:
  assumes "2 \<le> length series"
  shows "calculateChange series =
           Inr \<lparr>amount = js_sub (price (last series)) (price (hd series)),
                percentage = js_mul (js_div (js_sub (price (last series)) (price (hd series)))
                                       (price (hd series))) (Num 100)\<rparr>"
proof -
  have ne: "series \<noteq> []" using assms by auto
  show ?thesis using assms
    by (simp add: calculateChange_def at_index_0 [OF ne] at_index_last [OF ne] Let_def)
qed

lemma calculateChange_short:
  assumes "length series < 2"
  shows "calculateChange series = Inr \<lparr>amount = Num 0, percentage = Num 0\<rparr>"
  using assms by (simp add: calculateChange_def)

lemma toFixed_finite:
  assumes "\<bar>q\<bar> < 10 ^ 21"
  shows "toFixed rt f (Num q) =
           (if q < 0 then ''-'' else []) @ print_scaled f (round_scaled f \<bar>q\<bar>)"
  using assms by (simp add: toFixed_def Let_def)

lemma round_scaled_eq:
  assumes "of_nat n \<le> a * 10 ^ f + 1 / 2" and "a * 10 ^ f + 1 / 2 < of_nat n + 1"
  shows "round_scaled f a = n"
proof -
  have "\<lfloor>a * 10 ^ f + 1 / 2\<rfloor> = int n"
    using assms by (intro floor_unique) simp_all
  then show ?thesis by (simp add: round_scaled_def)
qed

text \<open>
  C2, as the code has it. For a series of at least two samples, once loading is over,
  the widget shows the percentage line with the children: the prefix, \<^verbatim>\<open>toFixed(2)\<close> of
  the double that \<^verbatim>\<open>((last - first) / first) * 100\<close> evaluates to (each operation
  rounded to a double), and \<^verbatim>\<open>%\<close>. The prefix is \<^verbatim>\<open>+\<close> exactly when the amount
  \<^verbatim>\<open>last - first\<close> is \<^verbatim>\<open>>= 0\<close>. For a finite double of magnitude below \<open>10^21\<close>,
  \<^verbatim>\<open>toFixed(2)\<close> prints the sign and the integer nearest to the magnitude times 100 (at
  most one half away from it) with two digits after the point.
\<close>

theorem percentage_change_display:
  assumes "2 \<le> length (chartData st)" and "\<not> loading st"
  shows "\<exists>v. change_display rt st = Inr (Some v)
       \<and> percentage_line v =
           [if js_ge (js_sub (price (last (chartData st))) (price (hd (chartData st)))) (Num 0)
            then ''+'' else [],
            toFixed rt 2
              (js_mul (js_div (js_sub (price (last (chartData st))) (price (hd (chartData st))))
                         (price (hd (chartData st)))) (Num 100)),
            ''%'']
       \<and> (hd (percentage_line v) = ''+'' \<longleftrightarrow>
            js_ge (js_sub (price (last (chartData st))) (price (hd (chartData st)))) (Num 0))
       \<and> (\<forall>q. \<bar>q\<bar> < 10 ^ 21 \<longrightarrow>
            toFixed rt 2 (Num q) =
              (if q < 0 then ''-'' else []) @ print_scaled 2 (round_scaled 2 \<bar>q\<bar>)
            \<and> \<bar>of_nat (round_scaled 2 \<bar>q\<bar>) - \<bar>q\<bar> * 10 ^ 2\<bar> \<le> 1 / 2)"
proof -
  let ?amount = "js_sub (price (last (chartData st))) (price (hd (chartData st)))"
  let ?pct = "js_mul (js_div ?amount (price (hd (chartData st)))) (Num 100)"
  let ?v = "\<lparr>colour = (if js_ge ?amount (Num 0) then ''text-green-500'' else ''text-red-500''),
             amount_line = [if js_ge ?amount (Num 0) then ''+'' else [],
                            Intl_currency rt ?amount],
             percentage_line = [if js_ge ?amount (Num 0) then ''+'' else [],
                                toFixed rt 2 ?pct, ''%'']\<rparr>"
  have v: "change_display rt st = Inr (Some ?v)"
    using assms by (simp add: change_display_def calculateChange_two Let_def)
  have sign: "hd (percentage_line ?v) = ''+'' \<longleftrightarrow> js_ge ?amount (Num 0)"
    by simp
  have rnd: "\<forall>q. \<bar>q\<bar> < 10 ^ 21 \<longrightarrow>
            toFixed rt 2 (Num q) =
              (if q < 0 then ''-'' else []) @ print_scaled 2 (round_scaled 2 \<bar>q\<bar>)
            \<and> \<bar>of_nat (round_scaled 2 \<bar>q\<bar>) - \<bar>q\<bar> * 10 ^ 2\<bar> \<le> 1 / 2"
    using toFixed_finite [of _ rt 2] round_scaled_nearest [of _ 2] by simp
  have "change_display rt st = Inr (Some ?v)
       \<and> percentage_line ?v = [if js_ge ?amount (Num 0) then ''+'' else [], toFixed rt 2 ?pct, ''%'']
       \<and> (hd (percentage_line ?v) = ''+'' \<longleftrightarrow> js_ge ?amount (Num 0))"
    using v sign by simp
  with rnd show ?thesis by blast
qed

lemma print_ten_hundredths: "print_scaled 2 1000 = ''10.00''"
  by (simp add: print_scaled_def show_nat.simps Let_def)

lemma print_ten_dollars: "Intl_currency integer_runtime (Num 10) = ''$10''"
proof -
  have "round_scaled 0 10 = 10" by (rule round_scaled_eq) simp_all
  then show ?thesis
    by (simp add: integer_runtime_def print_integer_def show_nat.simps)
qed

lemma rising_amount: "js_sub (Num 110) (Num 100) = Num 10"
  by (simp add: js_sub_Num)

lemma rising_quotient:
  "js_div (Num 10) (Num 100) = Num (3602879701896397 / 36028797018963968)"
  using round_double_eval [of "- 4" "10 / 100" 7205759403792794]
  by (simp add: js_div_Num)

lemma rising_percentage:
  "js_mul (Num (3602879701896397 / 36028797018963968)) (Num 100) = Num 10"
  using round_double_eval [of 3 "3602879701896397 / 36028797018963968 * 100" 5629499534213120]
  by (simp add: js_mul_Num)

text \<open>
  From 100 to 110: 10 / 100 rounds to the double next to one tenth, and 100 times that
  rounds to 10, shown as \<^verbatim>\<open>+$10\<close> and \<^verbatim>\<open>+10.00%\<close>.
\<close>

theorem percentage_change_display_witness:
  "2 \<le> length (chartData rising_state) \<and> \<not> loading rising_state
   \<and> change_display integer_runtime rising_state =
       Inr (Some \<lparr>colour = ''text-green-500'',
                  amount_line = [''+'', ''$10''],
                  percentage_line = [''+'', ''10.00'', ''%'']\<rparr>)"
proof -
  have a: "2 \<le> length (chartData rising_state)" by (simp add: rising_state_def)
  have b: "\<not> loading rising_state" by (simp add: rising_state_def)
  have h: "hd (chartData rising_state) = \<lparr>price = Num 100, timestamp = Num 0\<rparr>"
    "last (chartData rising_state) = \<lparr>price = Num 110, timestamp = Num 86400000\<rparr>"
    by (simp_all add: rising_state_def)
  have r: "round_scaled 2 10 = 1000" by (rule round_scaled_eq) simp_all
  have t: "toFixed integer_runtime 2 (Num 10) = ''10.00''"
    by (simp add: toFixed_def r print_ten_hundredths)
  obtain v where v: "change_display integer_runtime rising_state = Inr (Some v)"
    "percentage_line v =
       [if js_ge (js_sub (price (last (chartData rising_state)))
                    (price (hd (chartData rising_state)))) (Num 0) then ''+'' else [],
        toFixed integer_runtime 2
          (js_mul (js_div (js_sub (price (last (chartData rising_state)))
                             (price (hd (chartData rising_state))))
                     (price (hd (chartData rising_state)))) (Num 100)),
        ''%'']"
    using percentage_change_display [OF a b, of integer_runtime] by blast
  have pl: "percentage_line v = [''+'', ''10.00'', ''%'']"
    using v(2) by (simp add: h rising_amount rising_quotient rising_percentage t js_ge_Num)
  have cd: "change_display integer_runtime rising_state =
       Inr (Some \<lparr>colour = ''text-green-500'',
                  amount_line = [''+'', ''$10''],
                  percentage_line = [''+'', ''10.00'', ''%'']\<rparr>)"
    using a b
    by (simp add: change_display_def calculateChange_two h rising_amount rising_quotient
          rising_percentage t js_ge_Num print_ten_dollars Let_def)
  from a b cd v(1) pl show ?thesis by simp
qed

lemma tie_amount: "js_sub (Num 40030) (Num 40000) = Num 30"
  by (simp add: js_sub_Num)

lemma tie_quotient:
  "js_div (Num 30) (Num 40000) = Num (3458764513820541 / 4611686018427387904)"
  using round_double_eval [of "- 11" "30 / 40000" 6917529027641082]
  by (simp add: js_div_Num)

lemma tie_percentage:
  "js_mul (Num (3458764513820541 / 4611686018427387904)) (Num 100) =
     Num (5404319552844595 / 72057594037927936)"
  using round_double_eval [of "- 4" "3458764513820541 / 4611686018427387904 * 100"
          5404319552844595]
  by (simp add: js_mul_Num)

lemma tie_printed:
  "toFixed rt 2 (Num (5404319552844595 / 72057594037927936)) = ''0.07''"
proof -
  have "round_scaled 2 (5404319552844595 / 72057594037927936) = 7"
    by (rule round_scaled_eq) simp_all
  then show ?thesis
    by (simp add: toFixed_def print_scaled_def show_nat.simps Let_def)
qed

lemma tie_exact_printed: "print_scaled 2 (round_scaled 2 ((40030 - 40000) / 40000 * 100)) = ''0.08''"
proof -
  have "round_scaled 2 ((40030 - 40000) / 40000 * 100) = 8"
    by (rule round_scaled_eq) simp_all
  then show ?thesis
    by (simp add: print_scaled_def show_nat.simps Let_def)
qed

text \<open>
  C2 as stated fails twice. From 40000 to 40030 the exact percentage is 0.075, which
  rounds to 0.08, but the double the code computes lies below 0.075 and the widget shows
  \<^verbatim>\<open>+0.07%\<close>. And for a series from 0 to 0 the percentage is \<^verbatim>\<open>NaN\<close>, which is not
  \<^verbatim>\<open>>= 0\<close>, yet the widget shows \<^verbatim>\<open>+NaN%\<close>: the prefix follows the amount.
\<close>

theorem percentage_change_counterexample:
  "change_display integer_runtime tie_state =
     Inr (Some \<lparr>colour = ''text-green-500'',
                amount_line = [''+'', ''$30''],
                percentage_line = [''+'', ''0.07'', ''%'']\<rparr>)
   \<and> print_scaled 2 (round_scaled 2 ((40030 - 40000) / 40000 * 100)) = ''0.08''
   \<and> change_display integer_runtime zero_state =
     Inr (Some \<lparr>colour = ''text-green-500'',
                amount_line = [''+'', ''$0''],
                percentage_line = [''+'', ''NaN'', ''%'']\<rparr>)
   \<and> js_mul (js_div (js_sub (Num 0) (Num 0)) (Num 0)) (Num 100) = NaN
   \<and> \<not> js_ge NaN (Num 0)"
proof -
  have ht: "hd (chartData tie_state) = \<lparr>price = Num 40000, timestamp = Num 0\<rparr>"
    "last (chartData tie_state) = \<lparr>price = Num 40030, timestamp = Num 86400000\<rparr>"
    "2 \<le> length (chartData tie_state)" "\<not> loading tie_state"
    by (simp_all add: tie_state_def)
  have hz: "hd (chartData zero_state) = \<lparr>price = Num 0, timestamp = Num 0\<rparr>"
    "last (chartData zero_state) = \<lparr>price = Num 0, timestamp = Num 86400000\<rparr>"
    "2 \<le> length (chartData zero_state)" "\<not> loading zero_state"
    by (simp_all add: zero_state_def)
  have d30: "Intl_currency integer_runtime (Num 30) = ''$30''"
  proof -
    have "round_scaled 0 30 = 30" by (rule round_scaled_eq) simp_all
    then show ?thesis
      by (simp add: integer_runtime_def print_integer_def show_nat.simps)
  qed
  have d0: "Intl_currency integer_runtime (Num 0) = ''$0''"
  proof -
    have "round_scaled 0 0 = 0" by (rule round_scaled_eq) simp_all
    then show ?thesis
      by (simp add: integer_runtime_def print_integer_def show_nat.simps)
  qed
  have z: "js_sub (Num 0) (Num 0) = Num 0" by (simp add: js_sub_Num)
  have n: "js_mul (js_div (Num 0) (Num 0)) (Num 100) = NaN"
    by (simp add: js_div_def js_mul_def)
  have 1: "change_display integer_runtime tie_state =
     Inr (Some \<lparr>colour = ''text-green-500'',
                amount_line = [''+'', ''$30''],
                percentage_line = [''+'', ''0.07'', ''%'']\<rparr>)"
    using ht(3,4)
    by (simp add: change_display_def calculateChange_two ht(1,2) tie_amount tie_quotient
          tie_percentage tie_printed js_ge_Num d30 Let_def)
  have 2: "change_display integer_runtime zero_state =
     Inr (Some \<lparr>colour = ''text-green-500'',
                amount_line = [''+'', ''$0''],
                percentage_line = [''+'', ''NaN'', ''%'']\<rparr>)"
    using hz(3,4)
    by (simp add: change_display_def calculateChange_two hz(1,2) z n js_ge_Num d0 toFixed_def
          Let_def)
  have 3: "\<not> js_ge NaN (Num 0)" by (simp add: js_ge_def)
  from 1 2 3 z n tie_exact_printed show ?thesis by simp
qed

text \<open>
  C9. For a series of fewer than two samples \<^verbatim>\<open>calculateChange\<close> returns
  \<^verbatim>\<open>{ amount: 0, percentage: 0 }\<close> (no read of an element fails, and the result does not
  depend on the one sample there may be), and the widget, once loading is over, shows both
  lines with the \<^verbatim>\<open>+\<close> prefix, the percentage as \<^verbatim>\<open>+0.00%\<close>.
\<close>

theorem short_series_zero_change:
  assumes "length (chartData st) < 2"
  shows "calculateChange (chartData st) = Inr \<lparr>amount = Num 0, percentage = Num 0\<rparr>
       \<and> change_display rt st =
           Inr (if \<not> loading st then
                  Some \<lparr>colour = ''text-green-500'',
                        amount_line = [''+'', Intl_currency rt (Num 0)],
                        percentage_line = [''+'', ''0.00'', ''%'']\<rparr>
                else None)"
proof -
  have "round_scaled 2 0 = 0" by (rule round_scaled_eq) simp_all
  then have "toFixed rt 2 (Num 0) = ''0.00''"
    by (simp add: toFixed_def print_scaled_def Let_def)
  then show ?thesis
    using assms by (simp add: change_display_def calculateChange_short Let_def js_ge_Num)
qed

text \<open>The series of one sample, and the empty series of the initial (loading) state.\<close>

theorem short_series_zero_change_witness:
  "length (chartData single_state) < 2 \<and> length (chartData initial_state) < 2
   \<and> calculateChange (chartData single_state) = Inr \<lparr>amount = Num 0, percentage = Num 0\<rparr>
   \<and> calculateChange [] = Inr \<lparr>amount = Num 0, percentage = Num 0\<rparr>
   \<and> change_display integer_runtime single_state =
       Inr (Some \<lparr>colour = ''text-green-500'', amount_line = [''+'', ''$0''],
                  percentage_line = [''+'', ''0.00'', ''%'']\<rparr>)
   \<and> change_display integer_runtime initial_state = Inr None"
proof -
  have a: "length (chartData single_state) < 2" by (simp add: single_state_def)
  have b: "length (chartData initial_state) < 2" by (simp add: initial_state_def)
  have "round_scaled 0 0 = 0" by (rule round_scaled_eq) simp_all
  then have c: "Intl_currency integer_runtime (Num 0) = ''$0''"
    by (simp add: integer_runtime_def print_integer_def show_nat.simps)
  have d: "loading initial_state" "\<not> loading single_state"
    by (simp_all add: single_state_def initial_state_def)
  have e: "calculateChange [] = Inr \<lparr>amount = Num 0, percentage = Num 0\<rparr>"
    by (simp add: calculateChange_def)
  from short_series_zero_change [OF a, of integer_runtime]
       short_series_zero_change [OF b, of integer_runtime] a b c d e
  show ?thesis by simp
qed

lemma year_cases:
  assumes "year \<in> set (map fst ikonPrices)"
  shows "year = ''2018'' \<or> year = ''2019'' \<or> year = ''2020'' \<or> year = ''2021''
       \<or> year = ''2022'' \<or> year = ''2023'' \<or> year = ''2024''"
  using assms by (simp add: ikonPrices_def)

lemma quotient_error:
  assumes "(2::rat) powi e \<le> a" and "a < 2 powi (e + 1)" and "- 6 \<le> e" and "e \<le> - 3"
  shows "\<exists>r. round_double a = Num r \<and> \<bar>r - a\<bar> \<le> 2 powi (- 56)"
proof -
  obtain r where r: "round_double a = Num r" "\<bar>r - a\<bar> \<le> 2 powi (e - 53)"
    using round_double_error [OF assms(1,2)] assms(3,4) by auto
  have "(2::rat) powi (e - 53) \<le> 2 powi (- 56)"
    using assms(4) by (intro two_powi_mono) simp
  with r show ?thesis by (intro exI [of _ r]) simp
qed

lemma tables_defined:
  assumes "year \<in> set (map fst ikonPrices)"
  shows "\<exists>pass hist. map_of ikonPrices year = Some (Num pass)
       \<and> map_of btcHistoricalPrices year = Some (Num hist) \<and> pass \<noteq> 0 \<and> hist \<noteq> 0
       \<and> (\<exists>r. round_double (pass / hist) = Num r \<and> \<bar>r - pass / hist\<bar> \<le> 2 powi (- 56))"
proof -
  have q1: "\<exists>r. round_double (999 / 6347) = Num r \<and> \<bar>r - 999 / 6347\<bar> \<le> 2 powi (- 56)"
    using quotient_error [of "- 3" "999 / 6347"] by simp
  have q2: "\<exists>r. round_double (999 / 9150) = Num r \<and> \<bar>r - 999 / 9150\<bar> \<le> 2 powi (- 56)"
    using quotient_error [of "- 4" "999 / 9150"] by simp
  have q3: "\<exists>r. round_double (1049 / 13780) = Num r \<and> \<bar>r - 1049 / 13780\<bar> \<le> 2 powi (- 56)"
    using quotient_error [of "- 4" "1049 / 13780"] by simp
  have q4: "\<exists>r. round_double (1149 / 61350) = Num r \<and> \<bar>r - 1149 / 61350\<bar> \<le> 2 powi (- 56)"
    using quotient_error [of "- 6" "1149 / 61350"] by simp
  have q5: "\<exists>r. round_double (1169 / 20550) = Num r \<and> \<bar>r - 1169 / 20550\<bar> \<le> 2 powi (- 56)"
    using quotient_error [of "- 5" "1169 / 20550"] by simp
  have q6: "\<exists>r. round_double (1159 / 34500) = Num r \<and> \<bar>r - 1159 / 34500\<bar> \<le> 2 powi (- 56)"
    using quotient_error [of "- 5" "1159 / 34500"] by simp
  have q7: "\<exists>r. round_double (1429 / 69500) = Num r \<and> \<bar>r - 1429 / 69500\<bar> \<le> 2 powi (- 56)"
    using quotient_error [of "- 6" "1429 / 69500"] by simp
  from year_cases [OF assms] show ?thesis
  proof (elim disjE)
    assume "year = ''2018''"
    then show ?thesis using q1
      by (intro exI [of _ 999] exI [of _ 6347]) (simp add: ikonPrices_def btcHistoricalPrices_def)
  next
    assume "year = ''2019''"
    then show ?thesis using q2
      by (intro exI [of _ 999] exI [of _ 9150]) (simp add: ikonPrices_def btcHistoricalPrices_def)
  next
    assume "year = ''2020''"
    then show ?thesis using q3
      by (intro exI [of _ 1049] exI [of _ 13780]) (simp add: ikonPrices_def btcHistoricalPrices_def)
  next
    assume "year = ''2021''"
    then show ?thesis using q4
      by (intro exI [of _ 1149] exI [of _ 61350]) (simp add: ikonPrices_def btcHistoricalPrices_def)
  next
    assume "year = ''2022''"
    then show ?thesis using q5
      by (intro exI [of _ 1169] exI [of _ 20550]) (simp add: ikonPrices_def btcHistoricalPrices_def)
  next
    assume "year = ''2023''"
    then show ?thesis using q6
      by (intro exI [of _ 1159] exI [of _ 34500]) (simp add: ikonPrices_def btcHistoricalPrices_def)
  next
    assume "year = ''2024''"
    then show ?thesis using q7
      by (intro exI [of _ 1429] exI [of _ 69500]) (simp add: ikonPrices_def btcHistoricalPrices_def)
  qed
qed

lemma calculateWhatIf_amount:
  assumes "map_of ikonPrices year = Some (Num pass)"
    and "map_of btcHistoricalPrices year = Some (Num hist)"
  shows "btcAmount (calculateWhatIf \<lparr>selectedYear = year, btcPrice = b\<rparr>) =
           js_div (Num pass) (Num hist)"
  using assms by (simp add: calculateWhatIf_def to_number_def Let_def)

lemma calculateWhatIf_gain:
  assumes "map_of ikonPrices year = Some (Num pass)"
  shows "gainLoss (calculateWhatIf \<lparr>selectedYear = year, btcPrice = b\<rparr>) =
           js_sub (js_mul (btcAmount (calculateWhatIf \<lparr>selectedYear = year, btcPrice = b\<rparr>))
                     (currentBtcPrice b)) (Num pass)"
  using assms by (simp add: calculateWhatIf_def to_number_def Let_def)

text \<open>
  C3, as the code has it. For every year key of \<^verbatim>\<open>ikonPrices\<close> both tables have an
  entry and the historical price is not zero. \<^verbatim>\<open>btcAmount\<close> is the double that
  \<^verbatim>\<open>passPrice / historicalBtcPrice\<close> rounds to, within \<open>2^-56\<close> of the exact quotient,
  and \<^verbatim>\<open>gainLoss\<close> is \<^verbatim>\<open>btcAmount * currentBtcPrice - passPrice\<close> in double arithmetic
  (the product rounded, then the difference rounded), where \<^verbatim>\<open>currentBtcPrice\<close> is
  \<^verbatim>\<open>btcPrice || 70000\<close>.
\<close>

theorem what_if_formulas:
  assumes "year \<in> set (map fst ikonPrices)"
  shows "\<exists>pass hist. map_of ikonPrices year = Some (Num pass)
       \<and> map_of btcHistoricalPrices year = Some (Num hist)
       \<and> hist \<noteq> 0
       \<and> btcAmount (calculateWhatIf \<lparr>selectedYear = year, btcPrice = b\<rparr>) =
           js_div (Num pass) (Num hist)
       \<and> (\<exists>r. btcAmount (calculateWhatIf \<lparr>selectedYear = year, btcPrice = b\<rparr>) = Num r
              \<and> \<bar>r - pass / hist\<bar> \<le> 2 powi (- 56))
       \<and> gainLoss (calculateWhatIf \<lparr>selectedYear = year, btcPrice = b\<rparr>) =
           js_sub (js_mul (btcAmount (calculateWhatIf \<lparr>selectedYear = year, btcPrice = b\<rparr>))
                     (currentBtcPrice b)) (Num pass)"
proof -
  obtain pass hist r where t: "map_of ikonPrices year = Some (Num pass)"
      "map_of btcHistoricalPrices year = Some (Num hist)" "pass \<noteq> 0" "hist \<noteq> 0"
      "round_double (pass / hist) = Num r" "\<bar>r - pass / hist\<bar> \<le> 2 powi (- 56)"
    using tables_defined [OF assms] by blast
  note amount = calculateWhatIf_amount [OF t(1,2), of b]
  note gain = calculateWhatIf_gain [OF t(1), of b]
  have "js_div (Num pass) (Num hist) = Num r"
    using t(3,4,5) by (simp add: js_div_Num)
  then have "\<exists>r. btcAmount (calculateWhatIf \<lparr>selectedYear = year, btcPrice = b\<rparr>) = Num r
              \<and> \<bar>r - pass / hist\<bar> \<le> 2 powi (- 56)"
    using amount t(6) by simp
  with t(1,2,4) amount gain show ?thesis by blast
qed

lemma amount_2018:
  "js_div (Num 999) (Num 6347) = Num (5670831608940445 / 36028797018963968)"
  using round_double_eval [of "- 3" "999 / 6347" 5670831608940445]
  by (simp add: js_div_Num)

lemma value_2018:
  "js_mul (Num (5670831608940445 / 36028797018963968)) (Num 63470) = Num 9990"
  using round_double_eval [of 13 "5670831608940445 / 36028797018963968 * 63470" 5492060580741120]
  by (simp add: js_mul_Num)

lemma printed_2018:
  "toFixed rt 6 (Num (5670831608940445 / 36028797018963968)) = ''0.157397''"
proof -
  have "round_scaled 6 (5670831608940445 / 36028797018963968) = 157397"
    by (rule round_scaled_eq) simp_all
  then show ?thesis
    by (simp add: toFixed_def print_scaled_def show_nat.simps Let_def)
qed

text \<open>
  Year 2018 at a current price of 63470: the double next to 999 / 6347 bitcoin, shown as
  \<^verbatim>\<open>0.157397 BTC\<close>, a value today of 9990 and a gain of 8991.
\<close>

theorem what_if_formulas_witness:
  "''2018'' \<in> set (map fst ikonPrices)
   \<and> map_of ikonPrices ''2018'' = Some (Num 999)
   \<and> map_of btcHistoricalPrices ''2018'' = Some (Num 6347)
   \<and> btcAmount (calculateWhatIf \<lparr>selectedYear = ''2018'', btcPrice = Some (Num 63470)\<rparr>) =
       Num (5670831608940445 / 36028797018963968)
   \<and> gainLoss (calculateWhatIf \<lparr>selectedYear = ''2018'', btcPrice = Some (Num 63470)\<rparr>) =
       Num 8991
   \<and> bitcoin_amount_line integer_runtime \<lparr>selectedYear = ''2018'', btcPrice = Some (Num 63470)\<rparr> =
       [''0.157397'', '' BTC'']"
proof -
  have a: "''2018'' \<in> set (map fst ikonPrices)" by (simp add: ikonPrices_def)
  have b: "map_of ikonPrices ''2018'' = Some (Num 999)" by (simp add: ikonPrices_def)
  have c: "map_of btcHistoricalPrices ''2018'' = Some (Num 6347)"
    by (simp add: btcHistoricalPrices_def)
  have cur: "currentBtcPrice (Some (Num 63470)) = Num 63470"
    by (simp add: currentBtcPrice_def js_or_def)
  obtain pass hist where ph: "map_of ikonPrices ''2018'' = Some (Num pass)"
      "map_of btcHistoricalPrices ''2018'' = Some (Num hist)"
      "btcAmount (calculateWhatIf \<lparr>selectedYear = ''2018'', btcPrice = Some (Num 63470)\<rparr>) =
         js_div (Num pass) (Num hist)"
      "gainLoss (calculateWhatIf \<lparr>selectedYear = ''2018'', btcPrice = Some (Num 63470)\<rparr>) =
         js_sub (js_mul (btcAmount (calculateWhatIf
                   \<lparr>selectedYear = ''2018'', btcPrice = Some (Num 63470)\<rparr>))
                   (currentBtcPrice (Some (Num 63470)))) (Num pass)"
    using what_if_formulas [OF a, of "Some (Num 63470)"] by blast
  have p: "pass = 999" "hist = 6347" using ph(1,2) b c by simp_all
  have d: "btcAmount (calculateWhatIf \<lparr>selectedYear = ''2018'', btcPrice = Some (Num 63470)\<rparr>) =
       Num (5670831608940445 / 36028797018963968)"
    using ph(3) p amount_2018 by simp
  have e: "gainLoss (calculateWhatIf \<lparr>selectedYear = ''2018'', btcPrice = Some (Num 63470)\<rparr>) =
       Num 8991"
    using ph(4) p by (simp add: d cur value_2018 js_sub_Num)
  have f: "bitcoin_amount_line integer_runtime
             \<lparr>selectedYear = ''2018'', btcPrice = Some (Num 63470)\<rparr> = [''0.157397'', '' BTC'']"
    by (simp add: bitcoin_amount_line_def d printed_2018)
  from a b c d e f show ?thesis by simp
qed

lemma amount_2020:
  "js_div (Num 1049) (Num 13780) = Num (2742685636639565 / 36028797018963968)"
  using round_double_eval [of "- 4" "1049 / 13780" 5485371273279130]
  by (simp add: js_div_Num)

lemma value_2020:
  "js_mul (Num (2742685636639565 / 36028797018963968)) (Num 41340) =
     Num (6920326185222145 / 2199023255552)"
  using round_double_eval [of 11 "2742685636639565 / 36028797018963968 * 41340"
          6920326185222145]
  by (simp add: js_mul_Num)

lemma gain_2020:
  "js_sub (Num (6920326185222145 / 2199023255552)) (Num 1049) =
     Num (4613550790148097 / 2199023255552)"
  using round_double_eval [of 11 "6920326185222145 / 2199023255552 - 1049" 4613550790148097]
  by (simp add: js_sub_Num)

text \<open>
  C3 as stated fails. For 2020 at a current price of 41340 the exact figures are
  1049 / 13780 bitcoin and a gain of 2098; the code holds the double next to the
  quotient, which is not the quotient, and a gain of 2098 plus \<open>2^-41\<close>
  (2098.0000000000005), which is not the exact \<open>btcAmount * 41340 - 1049\<close> of that double
  either.
\<close>

theorem what_if_counterexample:
  "btcAmount (calculateWhatIf \<lparr>selectedYear = ''2020'', btcPrice = Some (Num 41340)\<rparr>) =
     Num (2742685636639565 / 36028797018963968)
   \<and> (2742685636639565 / 36028797018963968 :: rat) \<noteq> 1049 / 13780
   \<and> gainLoss (calculateWhatIf \<lparr>selectedYear = ''2020'', btcPrice = Some (Num 41340)\<rparr>) =
     Num (4613550790148097 / 2199023255552)
   \<and> (1049 / 13780 * 41340 - 1049 :: rat) = 2098
   \<and> (4613550790148097 / 2199023255552 :: rat) = 2098 + 1 / 2 ^ 41
   \<and> (2742685636639565 / 36028797018963968 * 41340 - 1049 :: rat)
       \<noteq> 4613550790148097 / 2199023255552"
proof -
  have cur: "currentBtcPrice (Some (Num 41340)) = Num 41340"
    by (simp add: currentBtcPrice_def js_or_def)
  have a: "btcAmount (calculateWhatIf \<lparr>selectedYear = ''2020'', btcPrice = Some (Num 41340)\<rparr>) =
     Num (2742685636639565 / 36028797018963968)"
    by (simp add: calculateWhatIf_def ikonPrices_def btcHistoricalPrices_def to_number_def
          Let_def amount_2020)
  have g: "gainLoss (calculateWhatIf \<lparr>selectedYear = ''2020'', btcPrice = Some (Num 41340)\<rparr>) =
     Num (4613550790148097 / 2199023255552)"
    by (simp add: calculateWhatIf_def ikonPrices_def btcHistoricalPrices_def to_number_def
          Let_def amount_2020 cur value_2020 gain_2020)
  from a g show ?thesis by simp
qed

lemma length_mockData: "length (mockData w) = 20"
  by (simp add: mockData_def)

text \<open>
  C4, on the code. When the request is rejected, or answered with a status that is not
  ok, \<^verbatim>\<open>fetchChartData\<close> stores the fallback series of 20 samples and sets \<open>error\<close>;
  the chart area then shows the "Failed to load chart" panel, not the SVG.
\<close>

theorem failed_fetch_hides_fallback_series:
  "length (chartData (fetchChartData (w\<lparr>fetch_chart := \<lambda>u. Inl e\<rparr>) st)) = 20
   \<and> error (fetchChartData (w\<lparr>fetch_chart := \<lambda>u. Inl e\<rparr>) st) = Some ''Failed to load chart data''
   \<and> chart_area_view rt (fetchChartData (w\<lparr>fetch_chart := \<lambda>u. Inl e\<rparr>) st) = FailedToLoadChart
   \<and> length (chartData (fetchChartData
        (w\<lparr>fetch_chart := \<lambda>u. Inr \<lparr>chart_ok = False, chart_json = j\<rparr>\<rparr>) st)) = 20
   \<and> chart_area_view rt (fetchChartData
        (w\<lparr>fetch_chart := \<lambda>u. Inr \<lparr>chart_ok = False, chart_json = j\<rparr>\<rparr>) st) = FailedToLoadChart"
  by (simp add: fetchChartData_def fetchChartData_try_def Let_def chart_area_view_def
        length_mockData)

text \<open>The same on a concrete run: the initial state, with the network down.\<close>

theorem failed_fetch_offline_run:
  "length (chartData (fetchChartData offline_browser initial_state)) = 20
   \<and> error (fetchChartData offline_browser initial_state) = Some ''Failed to load chart data''
   \<and> \<not> loading (fetchChartData offline_browser initial_state)
   \<and> chart_area_view integer_runtime (fetchChartData offline_browser initial_state)
       = FailedToLoadChart"
  by (simp add: fetchChartData_def fetchChartData_try_def offline_browser_def initial_state_def
        length_mockData chart_area_view_def Let_def)

end
